theory Spec2Isabelle
  imports Main "HOL-Library.Sublist"
begin

section \<open>JavaScript values, exceptions and coercions\<close>

text \<open>
  The tools read parsed JSON (\<^verbatim>\<open>response.json()\<close>) through property reads, truthiness
  tests, \<^verbatim>\<open>??\<close>, \<^verbatim>\<open>String(...)\<close> and \<^verbatim>\<open>Number(...)\<close>. A parsed JSON document is a
  \<open>json\<close> value; an object lists its own properties in property order, with the keys
  already made distinct by the parser. A JavaScript value that may be \<^verbatim>\<open>undefined\<close> is a
  \<open>json option\<close>, \<open>None\<close> being \<^verbatim>\<open>undefined\<close>. \<open>string\<close> stands for a JavaScript string
  and \<open>length\<close> for its \<^verbatim>\<open>.length\<close>.

  A number (other than \<^verbatim>\<open>NaN\<close>, which JSON cannot write) is held in the decimal form
  from which \<^verbatim>\<open>Number::toString\<close> prints it: \<open>Dec negative s e\<close> is the number
  \<open>s \<times> 10\<^sup>e\<close> with its sign, zero when \<open>s = 0\<close>, and \<open>Infinite negative\<close> is an
  infinity (\<^verbatim>\<open>JSON.parse("1e999")\<close>). The decimal form of a double is the shortest one
  that reads back as that double, so every double has one, and no arithmetic on doubles
  is needed to print it.
\<close>

datatype number = Dec bool nat int | Infinite bool

datatype json =
    JNull
  | JBool bool
  | JNum number
  | JStr string
  | JArr "json list"
  | JObj "(string \<times> json) list"

text \<open>
  Whatever a \<^verbatim>\<open>catch\<close> clause can receive: an \<^verbatim>\<open>Error\<close> instance with its message, or
  a value that is not an \<^verbatim>\<open>Error\<close> (the tools test \<^verbatim>\<open>error instanceof Error\<close>).
\<close>

datatype thrown = ErrorObj string | NonError

definition bindE :: "thrown + 'a \<Rightarrow> ('a \<Rightarrow> thrown + 'b) \<Rightarrow> thrown + 'b" where
  "bindE m f = (case m of Inl e \<Rightarrow> Inl e | Inr x \<Rightarrow> f x)"

fun mapE :: "('a \<Rightarrow> thrown + 'b) \<Rightarrow> 'a list \<Rightarrow> thrown + 'b list" where
  "mapE f [] = Inr []"
| "mapE f (x # xs) = bindE (f x) (\<lambda>y. bindE (mapE f xs) (\<lambda>ys. Inr (y # ys)))"

text \<open>Decimal numerals, as \<^verbatim>\<open>String(n)\<close> and template literals print an integer.\<close>

fun show_nat :: "nat \<Rightarrow> string" where
  "show_nat n =
     (if n < 10 then [''0123456789'' ! n]
      else show_nat (n div 10) @ [''0123456789'' ! (n mod 10)])"

declare show_nat.simps [simp del]

text \<open>
  \<^verbatim>\<open>Number::toString\<close> (radix 10) of a positive number \<open>s \<times> 10\<^sup>e\<close>. With \<open>k\<close> the number
  of digits of \<open>s\<close> once its trailing zeros are moved into the exponent, and \<open>n = e + k\<close>:
  the digits followed by \<open>n - k\<close> zeros when \<open>k \<le> n \<le> 21\<close>; the digits with a decimal point
  after the first \<open>n\<close> when \<open>0 < n \<le> 21\<close>; \<^verbatim>\<open>0.\<close>, \<open>-n\<close> zeros and the digits when
  \<open>-6 < n \<le> 0\<close>; otherwise the exponent notation, as in \<^verbatim>\<open>1e+21\<close> and \<^verbatim>\<open>1.5e-7\<close>.
\<close>

fun strip_zeros :: "nat \<Rightarrow> int \<Rightarrow> nat \<times> int" where
  "strip_zeros s e =
     (if s \<noteq> 0 \<and> s mod 10 = 0 then strip_zeros (s div 10) (e + 1) else (s, e))"

declare strip_zeros.simps [simp del]

definition decimal_string :: "nat \<Rightarrow> int \<Rightarrow> string" where
  "decimal_string s e =
     (case strip_zeros s e of (m, x) \<Rightarrow>
        (let digits = show_nat m; k = int (length digits); n = x + k
         in if k \<le> n \<and> n \<le> 21 then digits @ replicate (nat (n - k)) (CHR ''0'')
            else if 0 < n \<and> n \<le> 21 then take (nat n) digits @ ''.'' @ drop (nat n) digits
            else if - 6 < n \<and> n \<le> 0 then ''0.'' @ replicate (nat (- n)) (CHR ''0'') @ digits
            else (if k = 1 then digits else take 1 digits @ ''.'' @ drop 1 digits)
                 @ ''e'' @ (if n - 1 < 0 then ''-'' else ''+'') @ show_nat (nat \<bar>n - 1\<bar>)))"

text \<open>\<^verbatim>\<open>String(x)\<close> of a number: both zeros print as \<^verbatim>\<open>0\<close>.\<close>

fun number_string :: "number \<Rightarrow> string" where
  "number_string (Infinite negative) = (if negative then ''-Infinity'' else ''Infinity'')"
| "number_string (Dec negative s e) =
     (if s = 0 then ''0'' else (if negative then ''-'' else []) @ decimal_string s e)"

text \<open>
  The engine's own \<^verbatim>\<open>TypeError\<close>s, worded as V8 words them. They are \<^verbatim>\<open>Error\<close>
  instances, so a \<^verbatim>\<open>catch\<close> clause reads their message.
\<close>

definition cannot_read_null :: "string \<Rightarrow> thrown" where
  "cannot_read_null k =
     ErrorObj (''Cannot read properties of null (reading '' @ [CHR 0x27] @ k @ [CHR 0x27] @ '')'')"

definition not_a_function :: "string \<Rightarrow> thrown" where
  "not_a_function what = ErrorObj (what @ '' is not a function'')"

definition cannot_convert :: thrown where
  "cannot_convert = ErrorObj ''Cannot convert object to primitive value''"

text \<open>
  The property read \<^verbatim>\<open>v.k\<close> (or \<^verbatim>\<open>v[k]\<close>) for a property name that no prototype
  defines, as are all the names the tools read (none is \<^verbatim>\<open>length\<close>, an index, or a
  member of \<^verbatim>\<open>Object.prototype\<close>, \<^verbatim>\<open>Array.prototype\<close> or \<^verbatim>\<open>String.prototype\<close>):
  \<^verbatim>\<open>null\<close> raises, an object yields its own property or \<^verbatim>\<open>undefined\<close>, every other
  value yields \<^verbatim>\<open>undefined\<close>.
\<close>

fun get_prop :: "json \<Rightarrow> string \<Rightarrow> thrown + json option" where
  "get_prop JNull k = Inl (cannot_read_null k)"
| "get_prop (JObj kvs) k = Inr (map_of kvs k)"
| "get_prop _ k = Inr None"

fun truthy :: "json option \<Rightarrow> bool" where
  "truthy None = False"
| "truthy (Some JNull) = False"
| "truthy (Some (JBool b)) = b"
| "truthy (Some (JNum (Dec negative s e))) = (s \<noteq> 0)"
| "truthy (Some (JNum (Infinite negative))) = True"
| "truthy (Some (JStr s)) = (s \<noteq> [])"
| "truthy (Some (JArr xs)) = True"
| "truthy (Some (JObj kvs)) = True"

text \<open>\<^verbatim>\<open>v ?? d\<close>\<close>

fun nullish :: "json option \<Rightarrow> json \<Rightarrow> json" where
  "nullish None d = d"
| "nullish (Some JNull) d = d"
| "nullish (Some v) d = v"

text \<open>
  \<^verbatim>\<open>String(v)\<close>. An object parsed from JSON that has an own \<^verbatim>\<open>toString\<close> property hides
  \<^verbatim>\<open>Object.prototype.toString\<close> behind a value that cannot be called, and the conversion
  raises; so does an array with such an element. An array joins its elements with commas,
  \<^verbatim>\<open>null\<close> elements printing as the empty string.
\<close>

fun unconvertible :: "json \<Rightarrow> bool" where
  "unconvertible (JObj kvs) = (map_of kvs ''toString'' \<noteq> None)"
| "unconvertible (JArr xs) = list_ex unconvertible xs"
| "unconvertible _ = False"

fun join :: "string \<Rightarrow> string list \<Rightarrow> string" where
  "join sep [] = []"
| "join sep [x] = x"
| "join sep (x # y # ys) = x @ sep @ join sep (y # ys)"

fun to_string :: "json \<Rightarrow> string" where
  "to_string JNull = ''null''"
| "to_string (JBool b) = (if b then ''true'' else ''false'')"
| "to_string (JNum x) = number_string x"
| "to_string (JStr s) = s"
| "to_string (JArr xs) = join '','' (map (\<lambda>x. if x = JNull then [] else to_string x) xs)"
| "to_string (JObj kvs) = ''[object Object]''"

definition js_String :: "json option \<Rightarrow> thrown + string" where
  "js_String v =
     (case v of
        None \<Rightarrow> Inr ''undefined''
      | Some j \<Rightarrow> if unconvertible j then Inl cannot_convert else Inr (to_string j))"

text \<open>
  \<^verbatim>\<open>Number(v)\<close>. The number a string parses to is a floating-point value and is kept
  as the string it is parsed from.
\<close>

datatype js_number = Num number | NaN | StringToNumber string

definition js_Number :: "json \<Rightarrow> thrown + js_number" where
  "js_Number v =
     (if unconvertible v then Inl cannot_convert
      else Inr (case v of
                  JNull \<Rightarrow> Num (Dec False 0 0)
                | JBool b \<Rightarrow> Num (Dec False (if b then 1 else 0) 0)
                | JNum x \<Rightarrow> Num x
                | JStr s \<Rightarrow> StringToNumber s
                | JArr xs \<Rightarrow> StringToNumber (to_string (JArr xs))
                | JObj kvs \<Rightarrow> NaN))"

section \<open>Process environment and field normalisers\<close>

text \<open>
  The two environment variables the program reads, and the platform's \<^verbatim>\<open>fetch\<close>. What
  \<^verbatim>\<open>fetch\<close> answers may depend on the requests issued before.
\<close>

datatype http_method = GET | POST | PUT

record request =
  req_url :: string
  req_query :: "(string \<times> string) list"
  req_method :: http_method
  req_headers :: "(string \<times> string) list"
  req_body :: "json option"

record response =
  resp_ok :: bool
  resp_status :: nat
  resp_text :: "thrown + string"
  resp_json :: "thrown + json"

record env =
  WEBFLOW_API_KEY :: "string option"
  WEBFLOW_SITE_ID :: "string option"
  fetch :: "request list \<Rightarrow> request \<Rightarrow> thrown + response"

definition getDefaultSiteId :: "env \<Rightarrow> string" where
  "getDefaultSiteId e = (case WEBFLOW_SITE_ID e of None \<Rightarrow> [] | Some s \<Rightarrow> s)"

definition site_id_required :: string where
  "site_id_required =
     ''A site ID is required. Either pass a siteId or set the WEBFLOW_SITE_ID environment variable.''"

definition resolveSiteId :: "env \<Rightarrow> string option \<Rightarrow> thrown + string" where
  "resolveSiteId e siteId =
     (let resolved = (case siteId of
                        None \<Rightarrow> getDefaultSiteId e
                      | Some s \<Rightarrow> if s \<noteq> [] then s else getDefaultSiteId e)
      in if resolved = [] then Inl (ErrorObj site_id_required) else Inr resolved)"

definition getStringField :: "json \<Rightarrow> string \<Rightarrow> string \<Rightarrow> thrown + string option" where
  "getStringField obj snakeCase camelCase =
     bindE (get_prop obj snakeCase) (\<lambda>s.
       if truthy s then bindE (js_String s) (\<lambda>r. Inr (Some r))
       else bindE (get_prop obj camelCase) (\<lambda>c.
         if truthy c then bindE (js_String c) (\<lambda>r. Inr (Some r))
         else Inr None))"

text \<open>\<^verbatim>\<open>obj.k ? String(obj.k) : undefined\<close>\<close>

definition truthy_string :: "json \<Rightarrow> string \<Rightarrow> thrown + string option" where
  "truthy_string obj k =
     bindE (get_prop obj k) (\<lambda>v.
       if truthy v then bindE (js_String v) (\<lambda>r. Inr (Some r)) else Inr None)"

record title_description =
  td_title :: "string option"
  td_description :: "string option"

definition parseTitleDescription :: "json option \<Rightarrow> thrown + title_description option" where
  "parseTitleDescription raw =
     (case raw of
        None \<Rightarrow> Inr None
      | Some r \<Rightarrow>
          if \<not> truthy (Some r) then Inr None
          else bindE (truthy_string r ''title'') (\<lambda>t.
               bindE (truthy_string r ''description'') (\<lambda>d.
                 Inr (Some \<lparr>td_title = t, td_description = d\<rparr>))))"

text \<open>
  \<^verbatim>\<open>parseFormFields\<close> walks \<^verbatim>\<open>Object.entries(rawFields)\<close>: the own properties of an
  object, the indexed elements of an array or of a string, nothing for a number or a
  boolean. The assignment \<^verbatim>\<open>fields[key] = ...\<close> with the key \<^verbatim>\<open>__proto__\<close> sets the
  prototype of \<^verbatim>\<open>fields\<close> and adds no own property.
\<close>

record form_field =
  ff_displayName :: "string option"
  ff_type :: "string option"

fun entries :: "json \<Rightarrow> (string \<times> json) list" where
  "entries (JObj kvs) = kvs"
| "entries (JArr xs) = zip (map show_nat [0..<length xs]) xs"
| "entries (JStr s) = zip (map show_nat [0..<length s]) (map (\<lambda>c. JStr [c]) s)"
| "entries _ = []"

definition parseFormFields :: "json option \<Rightarrow> thrown + (string \<times> form_field) list option" where
  "parseFormFields rawFields =
     (case rawFields of
        None \<Rightarrow> Inr None
      | Some r \<Rightarrow>
          if \<not> truthy (Some r) then Inr None
          else bindE (mapE (\<lambda>(key, v).
                        bindE (truthy_string v ''displayName'') (\<lambda>d.
                        bindE (truthy_string v ''type'') (\<lambda>t.
                          Inr (key, \<lparr>ff_displayName = d, ff_type = t\<rparr>))))
                      (entries r)) (\<lambda>assigned.
               let fields = filter (\<lambda>(key, f). key \<noteq> ''__proto__'') assigned
               in Inr (if length fields > 0 then Some fields else None)))"

section \<open>The transport adapter\<close>

text \<open>
  A computation that may issue requests takes the list of requests issued so far and
  returns it extended, with the value it returns or the exception it raises.
\<close>

type_synonym 'a io = "request list \<Rightarrow> (thrown + 'a) \<times> request list"

definition pureIO :: "thrown + 'a \<Rightarrow> 'a io" where
  "pureIO r = (\<lambda>log. (r, log))"

definition bindIO :: "'a io \<Rightarrow> ('a \<Rightarrow> 'b io) \<Rightarrow> 'b io" where
  "bindIO m f = (\<lambda>log. case m log of (Inl e, log') \<Rightarrow> (Inl e, log') | (Inr x, log') \<Rightarrow> f x log')"

text \<open>\<^verbatim>\<open>try { ... } catch (error) { return handler(error) }\<close>; \<^verbatim>\<open>console.error\<close> is not modelled.\<close>

definition try_catch :: "'a io \<Rightarrow> (thrown \<Rightarrow> 'a) \<Rightarrow> request list \<Rightarrow> 'a \<times> request list" where
  "try_catch m handler = (\<lambda>log. case m log of (Inl e, log') \<Rightarrow> (handler e, log') | (Inr x, log') \<Rightarrow> (x, log'))"

text \<open>\<^verbatim>\<open>error instanceof Error ? error.message : fallback\<close>\<close>

definition error_message :: "thrown \<Rightarrow> string \<Rightarrow> string" where
  "error_message e fallback = (case e of ErrorObj m \<Rightarrow> m | NonError \<Rightarrow> fallback)"

definition BASE_URL :: string where
  "BASE_URL = ''https://api.webflow.com/v2''"

definition api_key_required :: string where
  "api_key_required = ''WEBFLOW_API_KEY environment variable is required''"

definition getApiKey :: "env \<Rightarrow> thrown + string" where
  "getApiKey e =
     (case WEBFLOW_API_KEY e of
        None \<Rightarrow> Inl (ErrorObj api_key_required)
      | Some apiKey \<Rightarrow> if apiKey = [] then Inl (ErrorObj api_key_required) else Inr apiKey)"

datatype param = PStr string | PNum number

fun param_string :: "param \<Rightarrow> string" where
  "param_string (PStr s) = s"
| "param_string (PNum x) = number_string x"

record call_options =
  opt_method :: "http_method option"
  opt_body :: "json option"
  opt_params :: "(string \<times> param option) list option"

definition no_options :: call_options where
  "no_options = \<lparr>opt_method = None, opt_body = None, opt_params = None\<rparr>"

text \<open>
  The request \<^verbatim>\<open>callApi\<close> hands to \<^verbatim>\<open>fetch\<close>: the URL string given to \<^verbatim>\<open>new URL\<close>,
  the query parameters set on it (those that are not \<^verbatim>\<open>undefined\<close>, through
  \<^verbatim>\<open>String\<close>), the method (\<^verbatim>\<open>GET\<close> by default), the headers, and as body the JSON
  document that \<^verbatim>\<open>JSON.stringify\<close> writes.
\<close>

definition api_request :: "string \<Rightarrow> string \<Rightarrow> call_options \<Rightarrow> request" where
  "api_request apiKey path options =
     (let method = (case opt_method options of None \<Rightarrow> GET | Some m \<Rightarrow> m);
          body = opt_body options;
          query = (case opt_params options of
                     None \<Rightarrow> []
                   | Some ps \<Rightarrow> concat (map (\<lambda>(key, v). case v of None \<Rightarrow> []
                                                          | Some x \<Rightarrow> [(key, param_string x)]) ps));
          headers = (''Authorization'', ''Bearer '' @ apiKey) #
                    (if truthy body then [(''Content-Type'', ''application/json'')] else [])
      in \<lparr>req_url = BASE_URL @ path, req_query = query, req_method = method,
          req_headers = headers,
          req_body = (if truthy body then body else None)\<rparr>)"

text \<open>
  \<^verbatim>\<open>callApi\<close>. The key is read before \<^verbatim>\<open>fetch\<close> is called, so a missing key issues no
  request. A response that is not \<^verbatim>\<open>ok\<close> raises an error made of its status and its
  text; otherwise the call returns what \<^verbatim>\<open>response.json()\<close> gives.
\<close>

definition callApi :: "env \<Rightarrow> string \<Rightarrow> call_options \<Rightarrow> json io" where
  "callApi e path options = (\<lambda>log.
     case getApiKey e of
       Inl err \<Rightarrow> (Inl err, log)
     | Inr apiKey \<Rightarrow>
         (let req = api_request apiKey path options
          in (case fetch e log req of
                Inl err \<Rightarrow> (Inl err, log @ [req])
              | Inr resp \<Rightarrow>
                  if \<not> resp_ok resp then
                    (case resp_text resp of
                       Inl err \<Rightarrow> (Inl err, log @ [req])
                     | Inr text \<Rightarrow>
                         (Inl (ErrorObj (''Webflow API error '' @ show_nat (resp_status resp)
                                         @ '': '' @ text)), log @ [req]))
                  else (resp_json resp, log @ [req]))))"

section \<open>Shared expressions of the tools\<close>

text \<open>\<^verbatim>\<open>String(obj.k ?? "")\<close>\<close>

definition string_or_empty :: "json \<Rightarrow> string \<Rightarrow> thrown + string" where
  "string_or_empty obj k = bindE (get_prop obj k) (\<lambda>v. js_String (Some (nullish v (JStr []))))"

text \<open>\<^verbatim>\<open>typeof obj.k === "boolean" ? obj.k : undefined\<close>\<close>

definition boolean_or_undefined :: "json \<Rightarrow> string \<Rightarrow> thrown + bool option" where
  "boolean_or_undefined obj k =
     bindE (get_prop obj k) (\<lambda>v. Inr (case v of Some (JBool b) \<Rightarrow> Some b | _ \<Rightarrow> None))"

text \<open>
  \<^verbatim>\<open>v.map(f)\<close> on a value that is neither \<^verbatim>\<open>null\<close> nor \<^verbatim>\<open>undefined\<close>: only an array
  has a \<^verbatim>\<open>map\<close> method that can be called. \<open>what\<close> is the expression, for the message.
\<close>

definition js_map :: "string \<Rightarrow> json \<Rightarrow> (json \<Rightarrow> thrown + 'a) \<Rightarrow> thrown + 'a list" where
  "js_map what v f =
     (case v of
        JArr xs \<Rightarrow> mapE f xs
      | JNull \<Rightarrow> Inl (cannot_read_null ''map'')
      | _ \<Rightarrow> Inl (not_a_function (what @ ''.map'')))"

text \<open>\<^verbatim>\<open>v?.map(f)\<close>\<close>

definition optional_map :: "string \<Rightarrow> json option \<Rightarrow> (json \<Rightarrow> thrown + 'a) \<Rightarrow> thrown + 'a list option" where
  "optional_map what v f =
     (case v of
        None \<Rightarrow> Inr None
      | Some JNull \<Rightarrow> Inr None
      | Some j \<Rightarrow> bindE (js_map (what @ ''?'') j f) (\<lambda>ys. Inr (Some ys)))"

record custom_domain =
  dom_id :: string
  dom_url :: string

text \<open>The callback \<^verbatim>\<open>(d) => ({ id: String(d.id ?? ""), url: String(d.url ?? "") })\<close>\<close>

definition domain_of :: "json \<Rightarrow> thrown + custom_domain" where
  "domain_of d =
     bindE (string_or_empty d ''id'') (\<lambda>i.
     bindE (string_or_empty d ''url'') (\<lambda>u.
       Inr \<lparr>dom_id = i, dom_url = u\<rparr>))"

record pagination =
  pg_limit :: js_number
  pg_offset :: js_number
  pg_total :: js_number

text \<open>\<^verbatim>\<open>Number(pagination.k ?? 0)\<close>\<close>

definition number_or_zero :: "json \<Rightarrow> string \<Rightarrow> thrown + js_number" where
  "number_or_zero obj k = bindE (get_prop obj k) (\<lambda>v. js_Number (nullish v (JNum (Dec False 0 0))))"

text \<open>\<^verbatim>\<open>pagination ? { limit: ..., offset: ..., total: ... } : undefined\<close>\<close>

definition pagination_of :: "json option \<Rightarrow> thrown + pagination option" where
  "pagination_of p =
     (case p of
        None \<Rightarrow> Inr None
      | Some pg \<Rightarrow>
          if \<not> truthy (Some pg) then Inr None
          else bindE (number_or_zero pg ''limit'') (\<lambda>l.
               bindE (number_or_zero pg ''offset'') (\<lambda>off.
               bindE (number_or_zero pg ''total'') (\<lambda>t.
                 Inr (Some \<lparr>pg_limit = l, pg_offset = off, pg_total = t\<rparr>)))))"

section \<open>The tools\<close>

subsection \<open>listSites\<close>

record site_info =
  site_id :: string
  site_displayName :: string
  site_shortName :: string
  site_lastPublished :: "string option"
  site_lastUpdated :: "string option"
  site_previewUrl :: "string option"
  site_timeZone :: "string option"
  site_designerUrl :: string
  site_settingsUrl :: string
  site_customDomains :: "custom_domain list option"

record list_sites_result =
  ls_sites :: "site_info list"
  ls_count :: nat
  ls_error :: "string option"

text \<open>The callback of \<^verbatim>\<open>rawSites.map\<close>.\<close>

definition site_of :: "json \<Rightarrow> thrown + site_info" where
  "site_of raw =
     bindE (get_prop raw ''customDomains'') (\<lambda>domains.
     bindE (string_or_empty raw ''id'') (\<lambda>i.
     bindE (string_or_empty raw ''displayName'') (\<lambda>dn.
     bindE (string_or_empty raw ''shortName'') (\<lambda>sn.
     bindE (getStringField raw ''last_published'' ''lastPublished'') (\<lambda>lp.
     bindE (getStringField raw ''last_updated'' ''lastUpdated'') (\<lambda>lu.
     bindE (truthy_string raw ''previewUrl'') (\<lambda>pv.
     bindE (truthy_string raw ''timeZone'') (\<lambda>tz.
     bindE (bindE (get_prop raw ''shortName'') js_String) (\<lambda>d1.
     bindE (bindE (get_prop raw ''shortName'') js_String) (\<lambda>d2.
     bindE (optional_map ''domains'' domains domain_of) (\<lambda>cd.
       Inr \<lparr>site_id = i, site_displayName = dn, site_shortName = sn,
            site_lastPublished = lp, site_lastUpdated = lu,
            site_previewUrl = pv, site_timeZone = tz,
            site_designerUrl = ''https://'' @ d1 @ ''.design.webflow.com'',
            site_settingsUrl = ''https://webflow.com/dashboard/sites/'' @ d2 @ ''/general'',
            site_customDomains = cd\<rparr>)))))))))))"

definition listSites_try :: "env \<Rightarrow> list_sites_result io" where
  "listSites_try e =
     bindIO (callApi e ''/sites'' no_options) (\<lambda>response.
     pureIO (
       bindE (get_prop response ''sites'') (\<lambda>s.
       bindE (js_map ''rawSites'' (nullish s (JArr [])) site_of) (\<lambda>sites.
         Inr \<lparr>ls_sites = sites, ls_count = length sites, ls_error = None\<rparr>))))"

definition listSites :: "env \<Rightarrow> request list \<Rightarrow> list_sites_result \<times> request list" where
  "listSites e =
     try_catch (listSites_try e) (\<lambda>error.
       \<lparr>ls_sites = [], ls_count = 0,
        ls_error = Some (error_message error ''Failed to list sites'')\<rparr>)"

subsection \<open>publishSite\<close>

record publish_site_result =
  ps_success :: bool
  ps_publishedDomains :: "custom_domain list option"
  ps_error :: "string option"

text \<open>The request body \<^verbatim>\<open>publishSite\<close> builds before it calls the transport.\<close>

definition publish_body :: "string list option \<Rightarrow> bool option \<Rightarrow> json" where
  "publish_body customDomains publishToWebflowSubdomain =
     JObj ((''publishToWebflowSubdomain'',
            JBool (case publishToWebflowSubdomain of None \<Rightarrow> False | Some b \<Rightarrow> b)) #
           (case customDomains of
              None \<Rightarrow> []
            | Some ds \<Rightarrow> if length ds > 0 then [(''customDomains'', JArr (map JStr ds))] else []))"

definition publishSite_try :: "env \<Rightarrow> string option \<Rightarrow> string list option \<Rightarrow> bool option \<Rightarrow> publish_site_result io" where
  "publishSite_try e siteId customDomains publishToWebflowSubdomain =
     bindIO (pureIO (resolveSiteId e siteId)) (\<lambda>resolvedSiteId.
     bindIO (callApi e (''/sites/'' @ resolvedSiteId @ ''/publish'')
               \<lparr>opt_method = Some POST,
                opt_body = Some (publish_body customDomains publishToWebflowSubdomain),
                opt_params = None\<rparr>) (\<lambda>response.
     pureIO (
       bindE (get_prop response ''customDomains'') (\<lambda>domains.
       bindE (optional_map ''domains'' domains domain_of) (\<lambda>pd.
         Inr \<lparr>ps_success = True, ps_publishedDomains = pd, ps_error = None\<rparr>)))))"

definition publishSite :: "env \<Rightarrow> string option \<Rightarrow> string list option \<Rightarrow> bool option \<Rightarrow> request list \<Rightarrow> publish_site_result \<times> request list" where
  "publishSite e siteId customDomains publishToWebflowSubdomain =
     try_catch (publishSite_try e siteId customDomains publishToWebflowSubdomain) (\<lambda>error.
       \<lparr>ps_success = False, ps_publishedDomains = None,
        ps_error = Some (error_message error ''Failed to publish site'')\<rparr>)"

subsection \<open>listPages and updatePage\<close>

record page_info =
  page_id :: string
  page_title :: string
  page_slug :: string
  page_archived :: "bool option"
  page_draft :: "bool option"
  page_createdOn :: "string option"
  page_lastUpdated :: "string option"
  page_publishedPath :: "string option"
  page_seo :: "title_description option"
  page_openGraph :: "title_description option"

record list_pages_result =
  lp_pages :: "page_info list"
  lp_count :: nat
  lp_pagination :: "pagination option"
  lp_error :: "string option"

text \<open>The page object that \<^verbatim>\<open>listPages\<close> and \<^verbatim>\<open>updatePage\<close> both build from a raw page.\<close>

definition page_of :: "json \<Rightarrow> thrown + page_info" where
  "page_of page =
     bindE (string_or_empty page ''id'') (\<lambda>i.
     bindE (string_or_empty page ''title'') (\<lambda>t.
     bindE (string_or_empty page ''slug'') (\<lambda>sl.
     bindE (boolean_or_undefined page ''archived'') (\<lambda>a.
     bindE (boolean_or_undefined page ''draft'') (\<lambda>d.
     bindE (getStringField page ''created_on'' ''createdOn'') (\<lambda>c.
     bindE (getStringField page ''last_updated'' ''lastUpdated'') (\<lambda>u.
     bindE (truthy_string page ''publishedPath'') (\<lambda>pp.
     bindE (bindE (get_prop page ''seo'') parseTitleDescription) (\<lambda>seo.
     bindE (bindE (get_prop page ''openGraph'') parseTitleDescription) (\<lambda>og.
       Inr \<lparr>page_id = i, page_title = t, page_slug = sl, page_archived = a, page_draft = d,
            page_createdOn = c, page_lastUpdated = u, page_publishedPath = pp,
            page_seo = seo, page_openGraph = og\<rparr>))))))))))"

definition listPages_try :: "env \<Rightarrow> string option \<Rightarrow> number option \<Rightarrow> number option \<Rightarrow> list_pages_result io" where
  "listPages_try e siteId limit offset =
     bindIO (pureIO (resolveSiteId e siteId)) (\<lambda>resolvedSiteId.
     bindIO (callApi e (''/sites/'' @ resolvedSiteId @ ''/pages'')
               \<lparr>opt_method = None, opt_body = None,
                opt_params = Some [(''limit'', map_option PNum limit),
                                   (''offset'', map_option PNum offset)]\<rparr>) (\<lambda>response.
     pureIO (
       bindE (get_prop response ''pages'') (\<lambda>p.
       bindE (js_map ''rawPages'' (nullish p (JArr [])) page_of) (\<lambda>pages.
       bindE (bindE (get_prop response ''pagination'') pagination_of) (\<lambda>pg.
         Inr \<lparr>lp_pages = pages, lp_count = length pages, lp_pagination = pg,
              lp_error = None\<rparr>))))))"

definition listPages :: "env \<Rightarrow> string option \<Rightarrow> number option \<Rightarrow> number option \<Rightarrow> request list \<Rightarrow> list_pages_result \<times> request list" where
  "listPages e siteId limit offset =
     try_catch (listPages_try e siteId limit offset) (\<lambda>error.
       \<lparr>lp_pages = [], lp_count = 0, lp_pagination = None,
        lp_error = Some (error_message error ''Failed to list pages'')\<rparr>)"

record update_page_result =
  up_success :: bool
  up_page :: "page_info option"
  up_error :: "string option"

text \<open>
  The \<^verbatim>\<open>seo\<close> and \<^verbatim>\<open>openGraph\<close> arguments have the shape \<^verbatim>\<open>{title?, description?}\<close>;
  \<^verbatim>\<open>JSON.stringify\<close> writes the members that are defined.
\<close>

definition title_description_json :: "title_description \<Rightarrow> json" where
  "title_description_json td =
     JObj ((case td_title td of None \<Rightarrow> [] | Some t \<Rightarrow> [(''title'', JStr t)]) @
           (case td_description td of None \<Rightarrow> [] | Some d \<Rightarrow> [(''description'', JStr d)]))"

text \<open>The request body \<^verbatim>\<open>updatePage\<close> builds, one assignment per argument that is defined.\<close>

definition update_body :: "string option \<Rightarrow> string option \<Rightarrow> title_description option \<Rightarrow> title_description option \<Rightarrow> json" where
  "update_body title slug seo openGraph =
     JObj ((case title of None \<Rightarrow> [] | Some t \<Rightarrow> [(''title'', JStr t)]) @
           (case slug of None \<Rightarrow> [] | Some s \<Rightarrow> [(''slug'', JStr s)]) @
           (case seo of None \<Rightarrow> [] | Some td \<Rightarrow> [(''seo'', title_description_json td)]) @
           (case openGraph of None \<Rightarrow> [] | Some td \<Rightarrow> [(''openGraph'', title_description_json td)]))"

definition updatePage_try :: "env \<Rightarrow> string \<Rightarrow> string option \<Rightarrow> string option \<Rightarrow> title_description option \<Rightarrow> title_description option \<Rightarrow> update_page_result io" where
  "updatePage_try e pageId title slug seo openGraph =
     bindIO (callApi e (''/pages/'' @ pageId)
               \<lparr>opt_method = Some PUT,
                opt_body = Some (update_body title slug seo openGraph),
                opt_params = None\<rparr>) (\<lambda>response.
     pureIO (
       bindE (page_of response) (\<lambda>page.
         Inr \<lparr>up_success = True, up_page = Some page, up_error = None\<rparr>)))"

definition updatePage :: "env \<Rightarrow> string \<Rightarrow> string option \<Rightarrow> string option \<Rightarrow> title_description option \<Rightarrow> title_description option \<Rightarrow> request list \<Rightarrow> update_page_result \<times> request list" where
  "updatePage e pageId title slug seo openGraph =
     try_catch (updatePage_try e pageId title slug seo openGraph) (\<lambda>error.
       \<lparr>up_success = False, up_page = None,
        up_error = Some (error_message error ''Failed to update page'')\<rparr>)"

subsection \<open>listForms and listFormSubmissions\<close>

record form_info =
  form_id :: string
  form_displayName :: string
  form_pageId :: "string option"
  form_pageName :: "string option"
  form_formElementId :: "string option"
  form_fields :: "(string \<times> form_field) list option"
  form_createdOn :: "string option"
  form_lastUpdated :: "string option"

record list_forms_result =
  lf_forms :: "form_info list"
  lf_count :: nat
  lf_pagination :: "pagination option"
  lf_error :: "string option"

text \<open>The callback of \<^verbatim>\<open>rawForms.map\<close>.\<close>

definition form_of :: "json \<Rightarrow> thrown + form_info" where
  "form_of form =
     bindE (string_or_empty form ''id'') (\<lambda>i.
     bindE (string_or_empty form ''displayName'') (\<lambda>dn.
     bindE (truthy_string form ''pageId'') (\<lambda>pi.
     bindE (truthy_string form ''pageName'') (\<lambda>pn.
     bindE (getStringField form ''form_element_id'' ''formElementId'') (\<lambda>fe.
     bindE (bindE (get_prop form ''fields'') parseFormFields) (\<lambda>fs.
     bindE (getStringField form ''created_on'' ''createdOn'') (\<lambda>c.
     bindE (getStringField form ''last_updated'' ''lastUpdated'') (\<lambda>u.
       Inr \<lparr>form_id = i, form_displayName = dn, form_pageId = pi, form_pageName = pn,
            form_formElementId = fe, form_fields = fs,
            form_createdOn = c, form_lastUpdated = u\<rparr>))))))))"

definition listForms_try :: "env \<Rightarrow> string option \<Rightarrow> number option \<Rightarrow> number option \<Rightarrow> list_forms_result io" where
  "listForms_try e siteId limit offset =
     bindIO (pureIO (resolveSiteId e siteId)) (\<lambda>resolvedSiteId.
     bindIO (callApi e (''/sites/'' @ resolvedSiteId @ ''/forms'')
               \<lparr>opt_method = None, opt_body = None,
                opt_params = Some [(''limit'', map_option PNum limit),
                                   (''offset'', map_option PNum offset)]\<rparr>) (\<lambda>response.
     pureIO (
       bindE (get_prop response ''forms'') (\<lambda>f.
       bindE (js_map ''rawForms'' (nullish f (JArr [])) form_of) (\<lambda>forms.
       bindE (bindE (get_prop response ''pagination'') pagination_of) (\<lambda>pg.
         Inr \<lparr>lf_forms = forms, lf_count = length forms, lf_pagination = pg,
              lf_error = None\<rparr>))))))"

definition listForms :: "env \<Rightarrow> string option \<Rightarrow> number option \<Rightarrow> number option \<Rightarrow> request list \<Rightarrow> list_forms_result \<times> request list" where
  "listForms e siteId limit offset =
     try_catch (listForms_try e siteId limit offset) (\<lambda>error.
       \<lparr>lf_forms = [], lf_count = 0, lf_pagination = None,
        lf_error = Some (error_message error ''Failed to list forms'')\<rparr>)"

record form_submission =
  sub_id :: string
  sub_displayName :: "string option"
  sub_dateSubmitted :: "string option"
  sub_formResponse :: json

record list_form_submissions_result =
  lfs_formSubmissions :: "form_submission list"
  lfs_count :: nat
  lfs_pagination :: "pagination option"
  lfs_error :: "string option"

text \<open>The callback of \<^verbatim>\<open>rawSubmissions.map\<close>.\<close>

definition submission_of :: "json \<Rightarrow> thrown + form_submission" where
  "submission_of submission =
     bindE (string_or_empty submission ''id'') (\<lambda>i.
     bindE (truthy_string submission ''displayName'') (\<lambda>dn.
     bindE (getStringField submission ''date_submitted'' ''dateSubmitted'') (\<lambda>ds.
     bindE (get_prop submission ''formResponse'') (\<lambda>fr.
       Inr \<lparr>sub_id = i, sub_displayName = dn, sub_dateSubmitted = ds,
            sub_formResponse = nullish fr (JObj [])\<rparr>))))"

definition listFormSubmissions_try :: "env \<Rightarrow> string option \<Rightarrow> string option \<Rightarrow> number option \<Rightarrow> number option \<Rightarrow> list_form_submissions_result io" where
  "listFormSubmissions_try e siteId elementId limit offset =
     bindIO (pureIO (resolveSiteId e siteId)) (\<lambda>resolvedSiteId.
     bindIO (callApi e (''/sites/'' @ resolvedSiteId @ ''/form_submissions'')
               \<lparr>opt_method = None, opt_body = None,
                opt_params = Some [(''elementId'', map_option PStr elementId),
                                   (''limit'', map_option PNum limit),
                                   (''offset'', map_option PNum offset)]\<rparr>) (\<lambda>response.
     pureIO (
       bindE (get_prop response ''formSubmissions'') (\<lambda>f.
       bindE (js_map ''rawSubmissions'' (nullish f (JArr [])) submission_of) (\<lambda>formSubmissions.
       bindE (bindE (get_prop response ''pagination'') pagination_of) (\<lambda>pg.
         Inr \<lparr>lfs_formSubmissions = formSubmissions, lfs_count = length formSubmissions,
              lfs_pagination = pg, lfs_error = None\<rparr>))))))"

definition listFormSubmissions :: "env \<Rightarrow> string option \<Rightarrow> string option \<Rightarrow> number option \<Rightarrow> number option \<Rightarrow> request list \<Rightarrow> list_form_submissions_result \<times> request list" where
  "listFormSubmissions e siteId elementId limit offset =
     try_catch (listFormSubmissions_try e siteId elementId limit offset) (\<lambda>error.
       \<lparr>lfs_formSubmissions = [], lfs_count = 0, lfs_pagination = None,
        lfs_error = Some (error_message error ''Failed to list form submissions'')\<rparr>)"

subsection \<open>listCustomCode\<close>

record script_info =
  script_id :: string
  script_location :: string
  script_version :: string

record custom_code_block =
  block_siteId :: string
  block_pageId :: "string option"
  block_type :: "string option"
  block_scripts :: "script_info list"
  block_createdOn :: "string option"
  block_lastUpdated :: "string option"

record list_custom_code_result =
  lcc_blocks :: "custom_code_block list"
  lcc_count :: nat
  lcc_pagination :: "pagination option"
  lcc_error :: "string option"

text \<open>The callbacks of \<^verbatim>\<open>rawScripts.map\<close> and \<^verbatim>\<open>rawBlocks.map\<close>.\<close>

definition script_of :: "json \<Rightarrow> thrown + script_info" where
  "script_of script =
     bindE (string_or_empty script ''id'') (\<lambda>i.
     bindE (string_or_empty script ''location'') (\<lambda>l.
     bindE (string_or_empty script ''version'') (\<lambda>v.
       Inr \<lparr>script_id = i, script_location = l, script_version = v\<rparr>)))"

definition block_of :: "json \<Rightarrow> thrown + custom_code_block" where
  "block_of block =
     bindE (get_prop block ''scripts'') (\<lambda>s.
     bindE (string_or_empty block ''siteId'') (\<lambda>si.
     bindE (truthy_string block ''pageId'') (\<lambda>pi.
     bindE (truthy_string block ''type'') (\<lambda>ty.
     bindE (js_map ''rawScripts'' (nullish s (JArr [])) script_of) (\<lambda>scripts.
     bindE (getStringField block ''created_on'' ''createdOn'') (\<lambda>c.
     bindE (getStringField block ''last_updated'' ''lastUpdated'') (\<lambda>u.
       Inr \<lparr>block_siteId = si, block_pageId = pi, block_type = ty, block_scripts = scripts,
            block_createdOn = c, block_lastUpdated = u\<rparr>)))))))"

definition listCustomCode_try :: "env \<Rightarrow> string option \<Rightarrow> number option \<Rightarrow> number option \<Rightarrow> list_custom_code_result io" where
  "listCustomCode_try e siteId limit offset =
     bindIO (pureIO (resolveSiteId e siteId)) (\<lambda>resolvedSiteId.
     bindIO (callApi e (''/sites/'' @ resolvedSiteId @ ''/custom_code/blocks'')
               \<lparr>opt_method = None, opt_body = None,
                opt_params = Some [(''limit'', map_option PNum limit),
                                   (''offset'', map_option PNum offset)]\<rparr>) (\<lambda>response.
     pureIO (
       bindE (get_prop response ''blocks'') (\<lambda>b.
       bindE (js_map ''rawBlocks'' (nullish b (JArr [])) block_of) (\<lambda>blocks.
       bindE (bindE (get_prop response ''pagination'') pagination_of) (\<lambda>pg.
         Inr \<lparr>lcc_blocks = blocks, lcc_count = length blocks, lcc_pagination = pg,
              lcc_error = None\<rparr>))))))"

definition listCustomCode :: "env \<Rightarrow> string option \<Rightarrow> number option \<Rightarrow> number option \<Rightarrow> request list \<Rightarrow> list_custom_code_result \<times> request list" where
  "listCustomCode e siteId limit offset =
     try_catch (listCustomCode_try e siteId limit offset) (\<lambda>error.
       \<lparr>lcc_blocks = [], lcc_count = 0, lcc_pagination = None,
        lcc_error = Some (error_message error ''Failed to list custom code'')\<rparr>)"

subsection \<open>addCustomCode\<close>

datatype target = Site | Page

datatype location = Header | Footer

fun location_string :: "location \<Rightarrow> string" where
  "location_string Header = ''header''"
| "location_string Footer = ''footer''"

record add_custom_code_result =
  acc_success :: bool
  acc_scriptId :: string
  acc_appliedTo :: "string option"
  acc_error :: "string option"

definition page_id_required :: string where
  "page_id_required =
     ''A pageId is required when target is '' @ [CHR 0x22] @ ''page'' @ [CHR 0x22]
     @ ''. Use listPages to find page IDs.''"

definition script_too_long :: "nat \<Rightarrow> string" where
  "script_too_long n =
     ''Script exceeds the 2000 character limit ('' @ show_nat n
     @ '' characters). Consider hosting the script externally.''"

definition no_script_id :: string where
  "no_script_id = ''Failed to register script: no script ID returned''"

definition add_failed :: "string \<Rightarrow> add_custom_code_result" where
  "add_failed msg =
     \<lparr>acc_success = False, acc_scriptId = [], acc_appliedTo = None, acc_error = Some msg\<rparr>"

text \<open>\<^verbatim>\<open>!pageId\<close> is true for an absent and for an empty page identifier.\<close>

definition no_page_id :: "string option \<Rightarrow> bool" where
  "no_page_id pageId = (case pageId of None \<Rightarrow> True | Some p \<Rightarrow> p = [])"

text \<open>The template literal \<^verbatim>\<open>${pageId}\<close>.\<close>

definition page_id_text :: "string option \<Rightarrow> string" where
  "page_id_text pageId = (case pageId of None \<Rightarrow> ''undefined'' | Some p \<Rightarrow> p)"

definition register_body :: "string \<Rightarrow> string \<Rightarrow> string \<Rightarrow> json" where
  "register_body sourceCode version displayName =
     JObj [(''sourceCode'', JStr sourceCode), (''version'', JStr version),
           (''displayName'', JStr displayName)]"

definition scriptPayload :: "string \<Rightarrow> location \<Rightarrow> string \<Rightarrow> json" where
  "scriptPayload scriptId location version =
     JObj [(''scripts'', JArr [JObj [(''id'', JStr scriptId),
                                     (''location'', JStr (location_string location)),
                                     (''version'', JStr version)]])]"

definition addCustomCode_try :: "env \<Rightarrow> string option \<Rightarrow> target \<Rightarrow> string option \<Rightarrow> string \<Rightarrow> string \<Rightarrow> string \<Rightarrow> location \<Rightarrow> add_custom_code_result io" where
  "addCustomCode_try e siteId target pageId sourceCode displayName version location =
     (if target = Page \<and> no_page_id pageId then
        pureIO (Inr (add_failed page_id_required))
      else if length sourceCode > 2000 then
        pureIO (Inr (add_failed (script_too_long (length sourceCode))))
      else
        bindIO (pureIO (resolveSiteId e siteId)) (\<lambda>resolvedSiteId.
        bindIO (callApi e (''/sites/'' @ resolvedSiteId @ ''/registered_scripts/inline'')
                  \<lparr>opt_method = Some POST,
                   opt_body = Some (register_body sourceCode version displayName),
                   opt_params = None\<rparr>) (\<lambda>registered.
        bindIO (pureIO (string_or_empty registered ''id'')) (\<lambda>scriptId.
          if scriptId = [] then
            pureIO (Inr (add_failed no_script_id))
          else
            bindIO (if target = Page \<and> \<not> no_page_id pageId then
                      callApi e (''/pages/'' @ page_id_text pageId @ ''/custom_code'')
                        \<lparr>opt_method = Some PUT,
                         opt_body = Some (scriptPayload scriptId location version),
                         opt_params = None\<rparr>
                    else
                      callApi e (''/sites/'' @ resolvedSiteId @ ''/custom_code'')
                        \<lparr>opt_method = Some PUT,
                         opt_body = Some (scriptPayload scriptId location version),
                         opt_params = None\<rparr>) (\<lambda>applied.
            pureIO (Inr \<lparr>acc_success = True, acc_scriptId = scriptId,
                         acc_appliedTo = Some (if target = Page
                                               then ''page:'' @ page_id_text pageId
                                               else ''site:'' @ resolvedSiteId),
                         acc_error = None\<rparr>))))))"

definition addCustomCode :: "env \<Rightarrow> string option \<Rightarrow> target \<Rightarrow> string option \<Rightarrow> string \<Rightarrow> string \<Rightarrow> string \<Rightarrow> location \<Rightarrow> request list \<Rightarrow> add_custom_code_result \<times> request list" where
  "addCustomCode e siteId target pageId sourceCode displayName version location =
     try_catch (addCustomCode_try e siteId target pageId sourceCode displayName version location)
       (\<lambda>error. add_failed (error_message error ''Failed to add custom code''))"

section \<open>Reference definitions and example environments\<close>

text \<open>
  Dual-key resolution in the words of the specification: the first value that is present,
  stringified, else absent.
\<close>

definition first_present :: "(string \<times> json) list \<Rightarrow> string \<Rightarrow> string \<Rightarrow> string option" where
  "first_present kvs snakeCase camelCase =
     (case map_of kvs snakeCase of
        Some v \<Rightarrow> Some (to_string v)
      | None \<Rightarrow> (case map_of kvs camelCase of Some v \<Rightarrow> Some (to_string v) | None \<Rightarrow> None))"

text \<open>
  The members of \<^verbatim>\<open>Object.prototype\<close>: names under which every object parsed from JSON
  answers with an inherited member when it has no property of its own.
\<close>

definition object_prototype_names :: "string list" where
  "object_prototype_names =
     [''constructor'', ''__defineGetter__'', ''__defineSetter__'', ''hasOwnProperty'',
      ''__lookupGetter__'', ''__lookupSetter__'', ''isPrototypeOf'', ''propertyIsEnumerable'',
      ''toString'', ''valueOf'', ''__proto__'', ''toLocaleString'']"

text \<open>\<^verbatim>\<open>Object.keys\<close> of a JSON document.\<close>

fun object_keys :: "json \<Rightarrow> string list" where
  "object_keys (JObj kvs) = map fst kvs"
| "object_keys _ = []"

text \<open>
  Responses and environments for concrete runs, in the manner of the test suite's mocked
  \<^verbatim>\<open>fetch\<close>: a successful response with a JSON body, a failed response with a status and
  a text, and an environment that answers the n-th request with the n-th entry of a
  script (and rejects once the script is used up).
\<close>

definition json_response :: "json \<Rightarrow> response" where
  "json_response j = \<lparr>resp_ok = True, resp_status = 200, resp_text = Inr [], resp_json = Inr j\<rparr>"

definition error_response :: "nat \<Rightarrow> string \<Rightarrow> response" where
  "error_response status text =
     \<lparr>resp_ok = False, resp_status = status, resp_text = Inr text, resp_json = Inr JNull\<rparr>"

definition scripted_env :: "string option \<Rightarrow> string option \<Rightarrow> (thrown + response) list \<Rightarrow> env" where
  "scripted_env apiKey siteId answers =
     \<lparr>WEBFLOW_API_KEY = apiKey, WEBFLOW_SITE_ID = siteId,
      fetch = (\<lambda>log req. if length log < length answers then answers ! length log
                           else Inl (ErrorObj ''fetch failed''))\<rparr>"

text \<open>
  The two requests of the register-then-apply workflow, for an API key, a resolved site
  identifier and the tool's arguments: the registration
  (\<^verbatim>\<open>POST /sites/{site}/registered_scripts/inline\<close>) and the application
  (\<^verbatim>\<open>PUT /pages/{page}/custom_code\<close> for a page target, \<^verbatim>\<open>PUT /sites/{site}/custom_code\<close>
  otherwise).
\<close>

definition register_request :: "string \<Rightarrow> string \<Rightarrow> string \<Rightarrow> string \<Rightarrow> string \<Rightarrow> request" where
  "register_request apiKey site sourceCode version displayName =
     api_request apiKey (''/sites/'' @ site @ ''/registered_scripts/inline'')
       \<lparr>opt_method = Some POST,
        opt_body = Some (register_body sourceCode version displayName),
        opt_params = None\<rparr>"

definition apply_request :: "string \<Rightarrow> string \<Rightarrow> target \<Rightarrow> string option \<Rightarrow> string \<Rightarrow> location \<Rightarrow> string \<Rightarrow> request" where
  "apply_request apiKey site target pageId scriptId location version =
     api_request apiKey
       (if target = Page \<and> \<not> no_page_id pageId
        then ''/pages/'' @ page_id_text pageId @ ''/custom_code''
        else ''/sites/'' @ site @ ''/custom_code'')
       \<lparr>opt_method = Some PUT,
        opt_body = Some (scriptPayload scriptId location version),
        opt_params = None\<rparr>"

text \<open>The two steps of the workflow as calls of the transport.\<close>

definition register_script :: "env \<Rightarrow> string \<Rightarrow> string \<Rightarrow> string \<Rightarrow> string \<Rightarrow> json io" where
  "register_script e site sourceCode version displayName =
     callApi e (''/sites/'' @ site @ ''/registered_scripts/inline'')
       \<lparr>opt_method = Some POST,
        opt_body = Some (register_body sourceCode version displayName),
        opt_params = None\<rparr>"

definition apply_script :: "env \<Rightarrow> string \<Rightarrow> target \<Rightarrow> string option \<Rightarrow> string \<Rightarrow> location \<Rightarrow> string \<Rightarrow> json io" where
  "apply_script e site target pageId scriptId location version =
     callApi e
       (if target = Page \<and> \<not> no_page_id pageId
        then ''/pages/'' @ page_id_text pageId @ ''/custom_code''
        else ''/sites/'' @ site @ ''/custom_code'')
       \<lparr>opt_method = Some PUT,
        opt_body = Some (scriptPayload scriptId location version),
        opt_params = None\<rparr>"

text \<open>
  The environments in which every exception raised by \<^verbatim>\<open>fetch\<close> or by reading a response
  that is an \<^verbatim>\<open>Error\<close> carries a message that is not empty.
\<close>

definition transport_messages_nonempty :: "env \<Rightarrow> bool" where
  "transport_messages_nonempty e =
     (\<forall>log req. case fetch e log req of
                  Inl err \<Rightarrow> err \<noteq> ErrorObj []
                | Inr resp \<Rightarrow> if resp_ok resp then resp_json resp \<noteq> Inl (ErrorObj [])
                              else resp_text resp \<noteq> Inl (ErrorObj []))"

text \<open>
  A computation names its failure when it does not raise an \<^verbatim>\<open>Error\<close> whose message is
  the empty string.
\<close>

definition names_failure :: "thrown + 'a \<Rightarrow> bool" where
  "names_failure r = (r \<noteq> Inl (ErrorObj []))"

section \<open>Dual-key resolution and title/description normalisation\<close>

text \<open>
  C6, as stated, at an object whose snake-case key is present with the empty string: both
  keys are present, the first present value is the empty string, and \<^verbatim>\<open>getStringField\<close>
  answers with the camel-case value.
\<close>

theorem getStringField_present_falsy_counterexample:
  "getStringField (JObj [(''last_published'', JStr []), (''lastPublished'', JStr ''Y'')])
     ''last_published'' ''lastPublished'' = Inr (Some ''Y'')
   \<and> first_present [(''last_published'', JStr []), (''lastPublished'', JStr ''Y'')]
     ''last_published'' ''lastPublished'' = Some []"
  by (simp add: getStringField_def first_present_def bindE_def js_String_def)

text \<open>
  C6, amended. Dual-key resolution returns the first truthy value stringified, else
  absent: a key whose value is falsy (the empty string, 0, \<^verbatim>\<open>false\<close>, \<^verbatim>\<open>null\<close>) is
  treated like a missing key. For every object \<open>kvs\<close> and candidate names \<open>s\<close> (snake case)
  and \<open>c\<close> (camel case): a truthy value that the object has under \<open>s\<close> is returned
  stringified, whatever \<open>c\<close> holds; otherwise a truthy value that the object has under
  \<open>c\<close> is returned stringified; otherwise the result is absent. A candidate name that the
  object does not have of its own must not be a member of \<^verbatim>\<open>Object.prototype\<close> (such as
  \<^verbatim>\<open>constructor\<close>), which every object inherits. So \<^verbatim>\<open>{last_published: X}\<close> resolves to
  \<open>X\<close> and \<^verbatim>\<open>{lastPublished: Y}\<close> to \<open>Y\<close> for non-empty strings, with both the snake-case
  key wins, and with neither the result is absent. Stringifying is \<^verbatim>\<open>String(v)\<close>, defined
  for every value that has a string conversion: a number prints as
  \<^verbatim>\<open>Number::toString\<close> prints it (\<^verbatim>\<open>1e+21\<close>, \<^verbatim>\<open>1.5\<close>).
\<close>

theorem getStringField_first_truthy:
  "(map_of kvs s = Some v \<and> truthy (Some v) \<and> \<not> unconvertible v
      \<longrightarrow> getStringField (JObj kvs) s c = Inr (Some (to_string v)))
   \<and> (s \<notin> set object_prototype_names \<and> \<not> truthy (map_of kvs s)
       \<and> map_of kvs c = Some w \<and> truthy (Some w) \<and> \<not> unconvertible w
      \<longrightarrow> getStringField (JObj kvs) s c = Inr (Some (to_string w)))
   \<and> (s \<notin> set object_prototype_names \<and> c \<notin> set object_prototype_names
       \<and> \<not> truthy (map_of kvs s) \<and> \<not> truthy (map_of kvs c)
      \<longrightarrow> getStringField (JObj kvs) s c = Inr None)
   \<and> (X \<noteq> [] \<longrightarrow> getStringField (JObj [(''last_published'', JStr X)])
                      ''last_published'' ''lastPublished'' = Inr (Some X))
   \<and> (Y \<noteq> [] \<longrightarrow> getStringField (JObj [(''lastPublished'', JStr Y)])
                      ''last_published'' ''lastPublished'' = Inr (Some Y))
   \<and> (X \<noteq> [] \<longrightarrow> getStringField (JObj [(''last_published'', JStr X), (''lastPublished'', JStr Z)])
                      ''last_published'' ''lastPublished'' = Inr (Some X))
   \<and> getStringField (JObj []) ''last_published'' ''lastPublished'' = Inr None"
  by (simp add: getStringField_def bindE_def js_String_def)

theorem getStringField_first_truthy_witness:
  "getStringField (JObj [(''created_on'', JStr ''2024''), (''createdOn'', JStr ''2025'')])
     ''created_on'' ''createdOn'' = Inr (Some ''2024'')
   \<and> getStringField (JObj [(''created_on'', JNum (Dec False 0 0)), (''createdOn'', JStr ''2025'')])
     ''created_on'' ''createdOn'' = Inr (Some ''2025'')
   \<and> getStringField (JObj [(''created_on'', JNull), (''createdOn'', JStr [])])
     ''created_on'' ''createdOn'' = Inr None
   \<and> getStringField (JObj [(''created_on'', JNum (Dec False 1 21))])
     ''created_on'' ''createdOn'' = Inr (Some ''1e+21'')
   \<and> getStringField (JObj [(''createdOn'', JNum (Dec False 15 (- 1)))])
     ''created_on'' ''createdOn'' = Inr (Some ''1.5'')
   \<and> getStringField (JObj [(''last_published'', JStr ''X'')])
     ''last_published'' ''lastPublished'' = Inr (Some ''X'')
   \<and> getStringField (JObj [(''lastPublished'', JStr ''Y'')])
     ''last_published'' ''lastPublished'' = Inr (Some ''Y'')
   \<and> getStringField (JObj [(''last_published'', JStr ''X''), (''lastPublished'', JStr ''Y'')])
     ''last_published'' ''lastPublished'' = Inr (Some ''X'')"
  using getStringField_first_truthy
          [of "[(''created_on'', JStr ''2024''), (''createdOn'', JStr ''2025'')]"
              "''created_on''" "JStr ''2024''" "''createdOn''" "JStr ''2025''" "''X''" "''Y''" "''Y''"]
        getStringField_first_truthy
          [of "[(''created_on'', JNum (Dec False 0 0)), (''createdOn'', JStr ''2025'')]"
              "''created_on''" "JNum (Dec False 0 0)" "''createdOn''" "JStr ''2025''" "''X''" "''Y''" "''Y''"]
        getStringField_first_truthy
          [of "[(''created_on'', JNull), (''createdOn'', JStr [])]"
              "''created_on''" "JNull" "''createdOn''" "JStr []" "''X''" "''Y''" "''Y''"]
        getStringField_first_truthy
          [of "[(''created_on'', JNum (Dec False 1 21))]"
              "''created_on''" "JNum (Dec False 1 21)" "''createdOn''" "JNull" "''X''" "''Y''" "''Y''"]
        getStringField_first_truthy
          [of "[(''createdOn'', JNum (Dec False 15 (- 1)))]"
              "''created_on''" "JNull" "''createdOn''" "JNum (Dec False 15 (- 1))" "''X''" "''Y''" "''Y''"]
  by (simp add: object_prototype_names_def decimal_string_def strip_zeros.simps show_nat.simps
      Let_def)

text \<open>
  C7. Title/description normalisation: for an absent source object (\<^verbatim>\<open>undefined\<close>, or
  \<^verbatim>\<open>null\<close>) the output is absent, no object is made up; for the source object
  \<^verbatim>\<open>{title: "T"}\<close> with no description (and so for every non-empty title) the output is a
  present object with that title and an absent description; and the output for an empty
  source object, a present object with both members absent, differs from the output for an
  absent source.
\<close>

theorem parseTitleDescription_absent_or_present:
  "parseTitleDescription None = Inr None
   \<and> parseTitleDescription (Some JNull) = Inr None
   \<and> parseTitleDescription (Some (JObj [(''title'', JStr ''T'')]))
       = Inr (Some \<lparr>td_title = Some ''T'', td_description = None\<rparr>)
   \<and> (T \<noteq> [] \<longrightarrow> parseTitleDescription (Some (JObj [(''title'', JStr T)]))
       = Inr (Some \<lparr>td_title = Some T, td_description = None\<rparr>))
   \<and> parseTitleDescription (Some (JObj [])) = Inr (Some \<lparr>td_title = None, td_description = None\<rparr>)
   \<and> parseTitleDescription (Some (JObj [])) \<noteq> parseTitleDescription None"
  by (simp add: parseTitleDescription_def truthy_string_def bindE_def js_String_def)

theorem parseTitleDescription_absent_or_present_witness:
  "parseTitleDescription (Some (JObj [(''title'', JStr ''Home'')]))
       = Inr (Some \<lparr>td_title = Some ''Home'', td_description = None\<rparr>)"
  using parseTitleDescription_absent_or_present [of "''Home''"] by simp

section \<open>Results of the list tools\<close>

lemma try_catch_Inr:
  "m log = (Inr x, log') \<Longrightarrow> try_catch m h log = (x, log')"
  by (simp add: try_catch_def)

lemma try_catch_Inl:
  "m log = (Inl err, log') \<Longrightarrow> try_catch m h log = (h err, log')"
  by (simp add: try_catch_def)

lemma listSites_try_Inr:
  "listSites_try e log = (Inr r, log') \<Longrightarrow> ls_error r = None \<and> ls_count r = length (ls_sites r)"
  by (auto simp: listSites_try_def bindIO_def pureIO_def bindE_def split: prod.splits sum.splits)

lemma listPages_try_Inr:
  "listPages_try e siteId limit offset log = (Inr r, log') \<Longrightarrow> lp_error r = None \<and> lp_count r = length (lp_pages r)"
  by (auto simp: listPages_try_def bindIO_def pureIO_def bindE_def split: prod.splits sum.splits)

lemma listForms_try_Inr:
  "listForms_try e siteId limit offset log = (Inr r, log') \<Longrightarrow> lf_error r = None \<and> lf_count r = length (lf_forms r)"
  by (auto simp: listForms_try_def bindIO_def pureIO_def bindE_def split: prod.splits sum.splits)

lemma listFormSubmissions_try_Inr:
  "listFormSubmissions_try e siteId elementId limit offset log = (Inr r, log') \<Longrightarrow> lfs_error r = None \<and> lfs_count r = length (lfs_formSubmissions r)"
  by (auto simp: listFormSubmissions_try_def bindIO_def pureIO_def bindE_def split: prod.splits sum.splits)

lemma listCustomCode_try_Inr:
  "listCustomCode_try e siteId limit offset log = (Inr r, log') \<Longrightarrow> lcc_error r = None \<and> lcc_count r = length (lcc_blocks r)"
  by (auto simp: listCustomCode_try_def bindIO_def pureIO_def bindE_def split: prod.splits sum.splits)

text \<open>
  C4. For each of the five list tools, whatever the environment answers (a populated list,
  an empty one, a malformed document, a failed request), the \<^verbatim>\<open>count\<close> of the result is
  the length of the list it returns.
\<close>

theorem list_count_is_length:
  "ls_count (fst (listSites e log)) = length (ls_sites (fst (listSites e log)))
   \<and> lp_count (fst (listPages e siteId limit offset log))
       = length (lp_pages (fst (listPages e siteId limit offset log)))
   \<and> lf_count (fst (listForms e siteId limit offset log))
       = length (lf_forms (fst (listForms e siteId limit offset log)))
   \<and> lfs_count (fst (listFormSubmissions e siteId elementId limit offset log))
       = length (lfs_formSubmissions (fst (listFormSubmissions e siteId elementId limit offset log)))
   \<and> lcc_count (fst (listCustomCode e siteId limit offset log))
       = length (lcc_blocks (fst (listCustomCode e siteId limit offset log)))"
proof (intro conjI)
  show "ls_count (fst (listSites e log)) = length (ls_sites (fst (listSites e log)))"
  proof (cases "listSites_try e log")
    case (Pair r log')
    then show ?thesis
      by (cases r) (auto simp: listSites_def try_catch_def dest: listSites_try_Inr)
  qed
  show "lp_count (fst (listPages e siteId limit offset log))
       = length (lp_pages (fst (listPages e siteId limit offset log)))"
  proof (cases "listPages_try e siteId limit offset log")
    case (Pair r log')
    then show ?thesis
      by (cases r) (auto simp: listPages_def try_catch_def dest: listPages_try_Inr)
  qed
  show "lf_count (fst (listForms e siteId limit offset log))
       = length (lf_forms (fst (listForms e siteId limit offset log)))"
  proof (cases "listForms_try e siteId limit offset log")
    case (Pair r log')
    then show ?thesis
      by (cases r) (auto simp: listForms_def try_catch_def dest: listForms_try_Inr)
  qed
  show "lfs_count (fst (listFormSubmissions e siteId elementId limit offset log))
       = length (lfs_formSubmissions (fst (listFormSubmissions e siteId elementId limit offset log)))"
  proof (cases "listFormSubmissions_try e siteId elementId limit offset log")
    case (Pair r log')
    then show ?thesis
      by (cases r) (auto simp: listFormSubmissions_def try_catch_def dest: listFormSubmissions_try_Inr)
  qed
  show "lcc_count (fst (listCustomCode e siteId limit offset log))
       = length (lcc_blocks (fst (listCustomCode e siteId limit offset log)))"
  proof (cases "listCustomCode_try e siteId limit offset log")
    case (Pair r log')
    then show ?thesis
      by (cases r) (auto simp: listCustomCode_def try_catch_def dest: listCustomCode_try_Inr)
  qed
qed

section \<open>The register-then-apply workflow\<close>

lemma getApiKey_Some: "WEBFLOW_API_KEY e = Some k \<Longrightarrow> k \<noteq> [] \<Longrightarrow> getApiKey e = Inr k"
  by (simp add: getApiKey_def)

lemma callApi_no_key: "getApiKey e = Inl err \<Longrightarrow> callApi e path opts log = (Inl err, log)"
  by (simp add: callApi_def)

lemma callApi_log:
  "getApiKey e = Inr k \<Longrightarrow> snd (callApi e path opts log) = log @ [api_request k path opts]"
  by (simp add: callApi_def Let_def split: sum.splits)

lemma callApi_ok:
  "getApiKey e = Inr k \<Longrightarrow> fetch e log (api_request k path opts) = Inr resp \<Longrightarrow> resp_ok resp
   \<Longrightarrow> callApi e path opts log = (resp_json resp, log @ [api_request k path opts])"
  by (simp add: callApi_def Let_def)

lemma callApi_not_ok:
  "getApiKey e = Inr k \<Longrightarrow> fetch e log (api_request k path opts) = Inr resp \<Longrightarrow> \<not> resp_ok resp
   \<Longrightarrow> resp_text resp = Inr t
   \<Longrightarrow> callApi e path opts log
       = (Inl (ErrorObj (''Webflow API error '' @ show_nat (resp_status resp) @ '': '' @ t)),
          log @ [api_request k path opts])"
  by (simp add: callApi_def Let_def)

lemma sublist_page_id_required: "sublist ''pageId is required'' page_id_required"
proof -
  have "page_id_required = ''A '' @ ''pageId is required'' @
          ('' when target is '' @ [CHR 0x22] @ ''page'' @ [CHR 0x22] @ ''. Use listPages to find page IDs.'')"
    by (simp add: page_id_required_def)
  then show ?thesis
    by (metis sublist_appendI)
qed

lemma sublist_limit: "sublist ''2000 character'' (script_too_long n)"
proof -
  have "script_too_long n = ''Script exceeds the '' @ ''2000 character'' @
          ('' limit ('' @ show_nat n @ '' characters). Consider hosting the script externally.'')"
    by (simp add: script_too_long_def)
  then show ?thesis
    by (metis sublist_appendI)
qed

lemma sublist_length: "sublist (show_nat n) (script_too_long n)"
  unfolding script_too_long_def by (rule sublist_appendI)

text \<open>
  C2. With target \<^verbatim>\<open>"page"\<close> and no page identifier (absent, or empty) the result is
  the failure whose error is the page-identifier message, which contains
  \<^verbatim>\<open>pageId is required\<close>, and the list of requests is unchanged: no network call is made.
  This holds whatever the length of the source code, so the page-identifier precondition
  comes first. When that precondition passes and the source code is longer than 2000
  characters, the result is the failure whose error contains \<^verbatim>\<open>2000 character\<close> and the
  decimal length of the source code, and again no network call is made.
\<close>

theorem addCustomCode_preconditions:
  "(target = Page \<and> (pageId = None \<or> pageId = Some [])
      \<longrightarrow> addCustomCode e siteId target pageId sourceCode displayName version location log
            = (add_failed page_id_required, log))
   \<and> (\<not> (target = Page \<and> (pageId = None \<or> pageId = Some [])) \<and> 2000 < length sourceCode
      \<longrightarrow> addCustomCode e siteId target pageId sourceCode displayName version location log
            = (add_failed (script_too_long (length sourceCode)), log))
   \<and> sublist ''pageId is required'' page_id_required
   \<and> sublist ''2000 character'' (script_too_long (length sourceCode))
   \<and> sublist (show_nat (length sourceCode)) (script_too_long (length sourceCode))
   \<and> \<not> acc_success (add_failed msg) \<and> acc_error (add_failed msg) = Some msg"
  by (auto simp: addCustomCode_def addCustomCode_try_def try_catch_def pureIO_def no_page_id_def
      add_failed_def sublist_page_id_required sublist_limit sublist_length split: option.splits)

theorem addCustomCode_preconditions_witness:
  "addCustomCode (scripted_env (Some ''test-api-key'') (Some ''test-site-id'') [])
     (Some ''site-1'') Page None ''console.log(1);'' ''Oops'' ''1.0.0'' Footer []
     = (add_failed page_id_required, [])
   \<and> addCustomCode (scripted_env (Some ''test-api-key'') (Some ''test-site-id'') [])
     (Some ''site-1'') Page None (replicate 2001 (CHR ''x'')) ''Oops'' ''1.0.0'' Footer []
     = (add_failed page_id_required, [])
   \<and> addCustomCode (scripted_env (Some ''test-api-key'') (Some ''test-site-id'') [])
     (Some ''site-1'') Site None (replicate 2001 (CHR ''x'')) ''Too Long'' ''1.0.0'' Footer []
     = (add_failed (script_too_long 2001), [])
   \<and> script_too_long 2001
     = ''Script exceeds the 2000 character limit (2001 characters). Consider hosting the script externally.''"
  using addCustomCode_preconditions
          [of Page None "scripted_env (Some ''test-api-key'') (Some ''test-site-id'') []"
              "Some ''site-1''" "''console.log(1);''" "''Oops''" "''1.0.0''" Footer "[]" "[]"]
        addCustomCode_preconditions
          [of Page None "scripted_env (Some ''test-api-key'') (Some ''test-site-id'') []"
              "Some ''site-1''" "replicate 2001 (CHR ''x'')" "''Oops''" "''1.0.0''" Footer "[]" "[]"]
        addCustomCode_preconditions
          [of Site None "scripted_env (Some ''test-api-key'') (Some ''test-site-id'') []"
              "Some ''site-1''" "replicate 2001 (CHR ''x'')" "''Too Long''" "''1.0.0''" Footer "[]" "[]"]
  by (simp add: script_too_long_def show_nat.simps)

lemma addCustomCode_try_steps:
  assumes "\<not> (target = Page \<and> no_page_id pageId)" "length sourceCode \<le> 2000"
    and "resolveSiteId e siteId = Inr site"
  shows "addCustomCode_try e siteId target pageId sourceCode displayName version location
         = bindIO (register_script e site sourceCode version displayName) (\<lambda>registered.
           bindIO (pureIO (string_or_empty registered ''id'')) (\<lambda>scriptId.
             if scriptId = [] then pureIO (Inr (add_failed no_script_id))
             else bindIO (apply_script e site target pageId scriptId location version) (\<lambda>applied.
                  pureIO (Inr \<lparr>acc_success = True, acc_scriptId = scriptId,
                               acc_appliedTo = Some (if target = Page
                                                     then ''page:'' @ page_id_text pageId
                                                     else ''site:'' @ site),
                               acc_error = None\<rparr>))))"
  using assms
  by (auto simp: addCustomCode_try_def register_script_def apply_script_def bindIO_def pureIO_def
      fun_eq_iff split: prod.splits sum.splits)

text \<open>
  C3. When the size precondition passes, the site identifier resolves to \<open>site\<close>, the
  API key is set, and the target is the site, or a page with a page identifier \<open>p\<close> that
  is not empty: if the registration request (\<^verbatim>\<open>POST\<close> to
  \<^verbatim>\<open>/sites/<site>/registered_scripts/inline\<close> with the source code, version and display
  name) is answered by a successful response with the document \<^verbatim>\<open>{id: sid}\<close> (\<open>sid\<close> not
  empty, \<^verbatim>\<open>"script-123"\<close> in the instance below), and the application request (\<^verbatim>\<open>PUT\<close> to
  \<^verbatim>\<open>/sites/<site>/custom_code\<close>, or to \<^verbatim>\<open>/pages/<p>/custom_code\<close> for a page target, with
  the script's identifier, location and version) is answered by a successful response,
  then the result is success with that script identifier and \<^verbatim>\<open>appliedTo\<close> equal to
  \<^verbatim>\<open>site:<site>\<close>, or \<^verbatim>\<open>page:<p>\<close> for a page target, and exactly those two requests are
  issued, the registration first, then the application.
\<close>

theorem addCustomCode_happy_path:
  assumes key: "WEBFLOW_API_KEY e = Some k" "k \<noteq> []"
    and size: "length sourceCode \<le> 2000"
    and site: "resolveSiteId e siteId = Inr site"
    and destination:
      "(target = Site \<and> path = ''/sites/'' @ site @ ''/custom_code'' \<and> applied = ''site:'' @ site)
       \<or> (target = Page \<and> pageId = Some p \<and> p \<noteq> []
           \<and> path = ''/pages/'' @ p @ ''/custom_code'' \<and> applied = ''page:'' @ p)"
    and placement:
      "(location = Header \<and> placed = ''header'') \<or> (location = Footer \<and> placed = ''footer'')"
    and registration:
      "registration =
         \<lparr>req_url = ''https://api.webflow.com/v2/sites/'' @ site @ ''/registered_scripts/inline'',
          req_query = [], req_method = POST,
          req_headers = [(''Authorization'', ''Bearer '' @ k),
                         (''Content-Type'', ''application/json'')],
          req_body = Some (JObj [(''sourceCode'', JStr sourceCode), (''version'', JStr version),
                                 (''displayName'', JStr displayName)])\<rparr>"
    and application:
      "application =
         \<lparr>req_url = ''https://api.webflow.com/v2'' @ path,
          req_query = [], req_method = PUT,
          req_headers = [(''Authorization'', ''Bearer '' @ k),
                         (''Content-Type'', ''application/json'')],
          req_body = Some (JObj [(''scripts'',
                       JArr [JObj [(''id'', JStr sid), (''location'', JStr placed),
                                   (''version'', JStr version)]])])\<rparr>"
    and registered: "fetch e log registration = Inr reg_resp" "resp_ok reg_resp"
                    "resp_json reg_resp = Inr (JObj [(''id'', JStr sid)])" "sid \<noteq> []"
    and answered: "fetch e (log @ [registration]) application = Inr app_resp"
                 "resp_ok app_resp" "resp_json app_resp = Inr j"
  shows "addCustomCode e siteId target pageId sourceCode displayName version location log
         = (\<lparr>acc_success = True, acc_scriptId = sid, acc_appliedTo = Some applied,
             acc_error = None\<rparr>,
            log @ [registration, application])"
proof -
  have k: "getApiKey e = Inr k"
    using key by (rule getApiKey_Some)
  have pre: "\<not> (target = Page \<and> no_page_id pageId)"
    using destination by (auto simp: no_page_id_def)
  have reg_eq: "register_request k site sourceCode version displayName = registration"
    unfolding registration
    by (simp add: register_request_def api_request_def register_body_def BASE_URL_def Let_def)
  have app_eq: "apply_request k site target pageId sid location version = application"
    unfolding application using destination placement
    by (auto simp: apply_request_def api_request_def scriptPayload_def BASE_URL_def Let_def
        no_page_id_def page_id_text_def)
  have to: "(if target = Page then ''page:'' @ page_id_text pageId else ''site:'' @ site) = applied"
    using destination by (auto simp: page_id_text_def)
  have step1: "register_script e site sourceCode version displayName log
               = (Inr (JObj [(''id'', JStr sid)]), log @ [registration])"
    using callApi_ok [OF k, of log _ _ reg_resp] registered reg_eq
    by (simp add: register_script_def register_request_def)
  have sid: "string_or_empty (JObj [(''id'', JStr sid)]) ''id'' = Inr sid"
    by (simp add: string_or_empty_def bindE_def js_String_def)
  have step2: "apply_script e site target pageId sid location version (log @ [registration])
               = (Inr j, log @ [registration] @ [application])"
    using callApi_ok [OF k, of "log @ [registration]" _ _ app_resp] answered app_eq
    by (simp add: apply_script_def apply_request_def)
  show ?thesis
    using step1 sid step2 registered(4) to
    by (simp add: addCustomCode_def try_catch_def addCustomCode_try_steps [OF pre size site]
        bindIO_def pureIO_def)
qed


theorem addCustomCode_happy_path_witness:
  "addCustomCode
     (scripted_env (Some ''test-api-key'') (Some ''test-site-id'')
        [Inr (json_response (JObj [(''id'', JStr ''script-123'')])), Inr (json_response (JObj []))])
     (Some ''site-1'') Site None ''console.log(1);'' ''Hello Script'' ''1.0.0'' Footer []
   = (\<lparr>acc_success = True, acc_scriptId = ''script-123'',
       acc_appliedTo = Some ''site:site-1'', acc_error = None\<rparr>,
      [\<lparr>req_url = ''https://api.webflow.com/v2/sites/site-1/registered_scripts/inline'',
        req_query = [], req_method = POST,
        req_headers = [(''Authorization'', ''Bearer test-api-key''),
                       (''Content-Type'', ''application/json'')],
        req_body = Some (JObj [(''sourceCode'', JStr ''console.log(1);''),
                               (''version'', JStr ''1.0.0''),
                               (''displayName'', JStr ''Hello Script'')])\<rparr>,
       \<lparr>req_url = ''https://api.webflow.com/v2/sites/site-1/custom_code'',
        req_query = [], req_method = PUT,
        req_headers = [(''Authorization'', ''Bearer test-api-key''),
                       (''Content-Type'', ''application/json'')],
        req_body = Some (JObj [(''scripts'',
                     JArr [JObj [(''id'', JStr ''script-123''), (''location'', JStr ''footer''),
                                 (''version'', JStr ''1.0.0'')]])])\<rparr>])
   \<and> addCustomCode
     (scripted_env (Some ''test-api-key'') (Some ''test-site-id'')
        [Inr (json_response (JObj [(''id'', JStr ''script-123'')])), Inr (json_response (JObj []))])
     None Page (Some ''page-1'') ''console.log(2);'' ''Page Script'' ''0.1.0'' Header []
   = (\<lparr>acc_success = True, acc_scriptId = ''script-123'',
       acc_appliedTo = Some ''page:page-1'', acc_error = None\<rparr>,
      [\<lparr>req_url = ''https://api.webflow.com/v2/sites/test-site-id/registered_scripts/inline'',
        req_query = [], req_method = POST,
        req_headers = [(''Authorization'', ''Bearer test-api-key''),
                       (''Content-Type'', ''application/json'')],
        req_body = Some (JObj [(''sourceCode'', JStr ''console.log(2);''),
                               (''version'', JStr ''0.1.0''),
                               (''displayName'', JStr ''Page Script'')])\<rparr>,
       \<lparr>req_url = ''https://api.webflow.com/v2/pages/page-1/custom_code'',
        req_query = [], req_method = PUT,
        req_headers = [(''Authorization'', ''Bearer test-api-key''),
                       (''Content-Type'', ''application/json'')],
        req_body = Some (JObj [(''scripts'',
                     JArr [JObj [(''id'', JStr ''script-123''), (''location'', JStr ''header''),
                                 (''version'', JStr ''0.1.0'')]])])\<rparr>])"
  using addCustomCode_happy_path
          [where e = "scripted_env (Some ''test-api-key'') (Some ''test-site-id'')
                        [Inr (json_response (JObj [(''id'', JStr ''script-123'')])),
                         Inr (json_response (JObj []))]"
             and k = "''test-api-key''" and target = Site and pageId = None
             and sourceCode = "''console.log(1);''" and siteId = "Some ''site-1''"
             and site = "''site-1''" and log = "[]" and version = "''1.0.0''"
             and displayName = "''Hello Script''" and location = Footer and placed = "''footer''"
             and path = "''/sites/site-1/custom_code''" and applied = "''site:site-1''"
             and registration = "\<lparr>req_url = ''https://api.webflow.com/v2/sites/site-1/registered_scripts/inline'',
                req_query = [], req_method = POST,
                req_headers = [(''Authorization'', ''Bearer test-api-key''),
                               (''Content-Type'', ''application/json'')],
                req_body = Some (JObj [(''sourceCode'', JStr ''console.log(1);''),
                                       (''version'', JStr ''1.0.0''),
                                       (''displayName'', JStr ''Hello Script'')])\<rparr>"
             and application = "\<lparr>req_url = ''https://api.webflow.com/v2/sites/site-1/custom_code'',
                req_query = [], req_method = PUT,
                req_headers = [(''Authorization'', ''Bearer test-api-key''),
                               (''Content-Type'', ''application/json'')],
                req_body = Some (JObj [(''scripts'',
                             JArr [JObj [(''id'', JStr ''script-123''), (''location'', JStr ''footer''),
                                         (''version'', JStr ''1.0.0'')]])])\<rparr>"
             and reg_resp = "json_response (JObj [(''id'', JStr ''script-123'')])"
             and sid = "''script-123''" and app_resp = "json_response (JObj [])" and j = "JObj []"]
        addCustomCode_happy_path
          [where e = "scripted_env (Some ''test-api-key'') (Some ''test-site-id'')
                        [Inr (json_response (JObj [(''id'', JStr ''script-123'')])),
                         Inr (json_response (JObj []))]"
             and k = "''test-api-key''" and target = Page and pageId = "Some ''page-1''"
             and p = "''page-1''"
             and sourceCode = "''console.log(2);''" and siteId = None
             and site = "''test-site-id''" and log = "[]" and version = "''0.1.0''"
             and displayName = "''Page Script''" and location = Header and placed = "''header''"
             and path = "''/pages/page-1/custom_code''" and applied = "''page:page-1''"
             and registration = "\<lparr>req_url = ''https://api.webflow.com/v2/sites/test-site-id/registered_scripts/inline'',
                req_query = [], req_method = POST,
                req_headers = [(''Authorization'', ''Bearer test-api-key''),
                               (''Content-Type'', ''application/json'')],
                req_body = Some (JObj [(''sourceCode'', JStr ''console.log(2);''),
                                       (''version'', JStr ''0.1.0''),
                                       (''displayName'', JStr ''Page Script'')])\<rparr>"
             and application = "\<lparr>req_url = ''https://api.webflow.com/v2/pages/page-1/custom_code'',
                req_query = [], req_method = PUT,
                req_headers = [(''Authorization'', ''Bearer test-api-key''),
                               (''Content-Type'', ''application/json'')],
                req_body = Some (JObj [(''scripts'',
                             JArr [JObj [(''id'', JStr ''script-123''), (''location'', JStr ''header''),
                                         (''version'', JStr ''0.1.0'')]])])\<rparr>"
             and reg_resp = "json_response (JObj [(''id'', JStr ''script-123'')])"
             and sid = "''script-123''" and app_resp = "json_response (JObj [])" and j = "JObj []"]
  by (simp add: scripted_env_def json_response_def resolveSiteId_def getDefaultSiteId_def)

text \<open>
  C1, as stated, at a run of the test suite's kind: the registration answers
  \<^verbatim>\<open>{id: "script-123"}\<close>, the application is refused with status 400. The application
  request carries \<^verbatim>\<open>script-123\<close>, and the result's \<^verbatim>\<open>scriptId\<close> is the empty string.
\<close>

theorem addCustomCode_scriptId_lost_counterexample:
  "register_script
     (scripted_env (Some ''test-api-key'') (Some ''test-site-id'')
        [Inr (json_response (JObj [(''id'', JStr ''script-123'')])),
         Inr (error_response 400 ''Bad Request'')])
     ''site-1'' ''console.log(1);'' ''1.0.0'' ''Fail Script'' []
   = (Inr (JObj [(''id'', JStr ''script-123'')]),
      [register_request ''test-api-key'' ''site-1'' ''console.log(1);'' ''1.0.0'' ''Fail Script''])
   \<and> addCustomCode
     (scripted_env (Some ''test-api-key'') (Some ''test-site-id'')
        [Inr (json_response (JObj [(''id'', JStr ''script-123'')])),
         Inr (error_response 400 ''Bad Request'')])
     (Some ''site-1'') Site None ''console.log(1);'' ''Fail Script'' ''1.0.0'' Footer []
   = (\<lparr>acc_success = False, acc_scriptId = [], acc_appliedTo = None,
       acc_error = Some ''Webflow API error 400: Bad Request''\<rparr>,
      [register_request ''test-api-key'' ''site-1'' ''console.log(1);'' ''1.0.0'' ''Fail Script'',
       apply_request ''test-api-key'' ''site-1'' Site None ''script-123'' Footer ''1.0.0''])"
  by (simp add: addCustomCode_def addCustomCode_try_def try_catch_def bindIO_def pureIO_def
      register_script_def register_request_def apply_request_def callApi_def getApiKey_def
      scripted_env_def json_response_def error_response_def resolveSiteId_def no_page_id_def
      string_or_empty_def bindE_def js_String_def error_message_def add_failed_def
      show_nat.simps Let_def)

text \<open>
  C1, amended. When step 1 (registration) returns a script identifier that is not empty
  and step 2 (application) raises, the result has the success flag false, an error string
  set (the message of what step 2 raised, or the tool's default message), no
  \<^verbatim>\<open>appliedTo\<close>, and the empty string as \<^verbatim>\<open>scriptId\<close>: the identifier from step 1 is not
  carried in the result.
\<close>

theorem addCustomCode_apply_failure:
  assumes pre: "\<not> (target = Page \<and> (pageId = None \<or> pageId = Some []))" "length sourceCode \<le> 2000"
    and site: "resolveSiteId e siteId = Inr site"
    and step1: "register_script e site sourceCode version displayName log = (Inr registered, log_a)"
               "string_or_empty registered ''id'' = Inr sid" "sid \<noteq> []"
    and step2: "apply_script e site target pageId sid location version log_a = (Inl err, log_b)"
  shows "addCustomCode e siteId target pageId sourceCode displayName version location log
         = (\<lparr>acc_success = False, acc_scriptId = [], acc_appliedTo = None,
             acc_error = Some (error_message err ''Failed to add custom code'')\<rparr>, log_b)"
proof -
  have pre': "\<not> (target = Page \<and> no_page_id pageId)"
    using pre(1) by (auto simp: no_page_id_def split: option.splits)
  show ?thesis
    using step1 step2
    by (simp add: addCustomCode_def try_catch_def addCustomCode_try_steps [OF pre' pre(2) site]
        bindIO_def pureIO_def add_failed_def)
qed

theorem addCustomCode_apply_failure_witness:
  "addCustomCode
     (scripted_env (Some ''test-api-key'') (Some ''test-site-id'')
        [Inr (json_response (JObj [(''id'', JStr ''script-123'')])),
         Inr (error_response 400 ''Bad Request'')])
     (Some ''site-1'') Site None ''console.log(1);'' ''Fail Script'' ''1.0.0'' Footer []
   = (\<lparr>acc_success = False, acc_scriptId = [], acc_appliedTo = None,
       acc_error = Some ''Webflow API error 400: Bad Request''\<rparr>,
      [register_request ''test-api-key'' ''site-1'' ''console.log(1);'' ''1.0.0'' ''Fail Script'',
       apply_request ''test-api-key'' ''site-1'' Site None ''script-123'' Footer ''1.0.0''])"
  using addCustomCode_apply_failure
          [where e = "scripted_env (Some ''test-api-key'') (Some ''test-site-id'')
                        [Inr (json_response (JObj [(''id'', JStr ''script-123'')])),
                         Inr (error_response 400 ''Bad Request'')]"
             and target = Site and pageId = None
             and sourceCode = "''console.log(1);''" and siteId = "Some ''site-1''"
             and site = "''site-1''" and log = "[]" and version = "''1.0.0''"
             and displayName = "''Fail Script''" and location = Footer
             and registered = "JObj [(''id'', JStr ''script-123'')]"
             and log_a = "[register_request ''test-api-key'' ''site-1'' ''console.log(1);'' ''1.0.0'' ''Fail Script'']"
             and sid = "''script-123''"
             and err = "ErrorObj ''Webflow API error 400: Bad Request''"
             and log_b = "[register_request ''test-api-key'' ''site-1'' ''console.log(1);'' ''1.0.0'' ''Fail Script'',
                          apply_request ''test-api-key'' ''site-1'' Site None ''script-123'' Footer ''1.0.0'']"]
  by (simp add: register_script_def apply_script_def register_request_def apply_request_def
      callApi_def getApiKey_def scripted_env_def json_response_def error_response_def
      resolveSiteId_def no_page_id_def string_or_empty_def bindE_def js_String_def
      error_message_def show_nat.simps Let_def)

section \<open>Request bodies and site-identifier resolution\<close>

lemma req_body_api_request:
  "req_body (api_request k path \<lparr>opt_method = m, opt_body = Some (JObj kvs), opt_params = ps\<rparr>)
   = Some (JObj kvs)"
  by (simp add: api_request_def Let_def)

lemma snd_try_catch: "snd (try_catch m h log) = snd (m log)"
  by (simp add: try_catch_def split: prod.splits sum.splits)

lemma snd_bindIO_pureIO: "snd (bindIO m (\<lambda>x. pureIO (f x)) log) = snd (m log)"
  by (simp add: bindIO_def pureIO_def split: prod.splits sum.splits)

lemma bindIO_pureIO_Inr: "bindIO (pureIO (Inr x)) f = f x"
  by (simp add: bindIO_def pureIO_def)

lemma bindIO_pureIO_Inl: "bindIO (pureIO (Inl err)) f log = (Inl err, log)"
  by (simp add: bindIO_def pureIO_def)







lemma publish_body_object:
  "\<exists>kvs. publish_body customDomains flag = JObj kvs"
  by (simp add: publish_body_def)

lemma publishSite_log:
  "resolveSiteId e siteId = Inr site \<Longrightarrow> getApiKey e = Inr k \<Longrightarrow>
   snd (publishSite e siteId customDomains flag log)
   = log @ [api_request k (''/sites/'' @ site @ ''/publish'')
              \<lparr>opt_method = Some POST, opt_body = Some (publish_body customDomains flag),
               opt_params = None\<rparr>]"
  by (simp add: publishSite_def publishSite_try_def snd_try_catch bindIO_pureIO_Inr
      snd_bindIO_pureIO callApi_log)

lemma publishSite_unresolved:
  "resolveSiteId e siteId = Inl err \<Longrightarrow>
   publishSite e siteId customDomains flag log
   = (\<lparr>ps_success = False, ps_publishedDomains = None,
       ps_error = Some (error_message err ''Failed to publish site'')\<rparr>, log)"
  by (simp add: publishSite_def publishSite_try_def try_catch_def bindIO_pureIO_Inl)

lemma publishSite_no_key:
  "getApiKey e = Inl err \<Longrightarrow> snd (publishSite e siteId customDomains flag log) = log"
  by (cases "resolveSiteId e siteId")
     (simp_all add: publishSite_def publishSite_try_def snd_try_catch bindIO_pureIO_Inr
        bindIO_pureIO_Inl snd_bindIO_pureIO callApi_no_key)

text \<open>
  C10. Every invocation of \<^verbatim>\<open>publishSite\<close> issues one request when the site identifier
  resolves and the API key is set, and none otherwise. The body of that request always has
  the key \<^verbatim>\<open>publishToWebflowSubdomain\<close>, false when the caller left the flag out, and has
  the key \<^verbatim>\<open>customDomains\<close> (with the array supplied) only when the caller supplied an array
  that is not empty: an empty array gives the same body as no array.
\<close>

theorem publishSite_body_keys:
  "(resolveSiteId e siteId = Inr site \<and> getApiKey e = Inr k \<longrightarrow>
      snd (publishSite e siteId customDomains flag log)
      = log @ [api_request k (''/sites/'' @ site @ ''/publish'')
                 \<lparr>opt_method = Some POST, opt_body = Some (publish_body customDomains flag),
                  opt_params = None\<rparr>])
   \<and> (resolveSiteId e siteId = Inl err \<longrightarrow> snd (publishSite e siteId customDomains flag log) = log)
   \<and> (getApiKey e = Inl err \<longrightarrow> snd (publishSite e siteId customDomains flag log) = log)
   \<and> req_body (api_request k (''/sites/'' @ site @ ''/publish'')
                 \<lparr>opt_method = Some POST, opt_body = Some (publish_body customDomains flag),
                  opt_params = None\<rparr>)
       = Some (publish_body customDomains flag)
   \<and> get_prop (publish_body customDomains flag) ''publishToWebflowSubdomain''
       = Inr (Some (JBool (flag = Some True)))
   \<and> publish_body customDomains None = publish_body customDomains (Some False)
   \<and> object_keys (publish_body customDomains flag)
       = ''publishToWebflowSubdomain''
         # (if customDomains = None \<or> customDomains = Some [] then [] else [''customDomains''])
   \<and> (customDomains = Some ds \<and> ds \<noteq> [] \<longrightarrow>
        get_prop (publish_body customDomains flag) ''customDomains'' = Inr (Some (JArr (map JStr ds))))
   \<and> publish_body (Some []) flag = publish_body None flag"
proof -
  obtain kvs where body: "publish_body customDomains flag = JObj kvs"
    using publish_body_object by blast
  have sent: "req_body (api_request k (''/sites/'' @ site @ ''/publish'')
                 \<lparr>opt_method = Some POST, opt_body = Some (publish_body customDomains flag),
                  opt_params = None\<rparr>)
              = Some (publish_body customDomains flag)"
    unfolding body by (rule req_body_api_request)
  have flag_key: "get_prop (publish_body customDomains flag) ''publishToWebflowSubdomain''
                  = Inr (Some (JBool (flag = Some True)))"
    by (cases flag) (auto simp: publish_body_def)
  have default_false: "publish_body customDomains None = publish_body customDomains (Some False)"
    by (simp add: publish_body_def)
  have keys: "object_keys (publish_body customDomains flag)
       = ''publishToWebflowSubdomain''
         # (if customDomains = None \<or> customDomains = Some [] then [] else [''customDomains''])"
    by (cases customDomains) (auto simp: publish_body_def)
  have domains: "customDomains = Some ds \<and> ds \<noteq> [] \<longrightarrow>
        get_prop (publish_body customDomains flag) ''customDomains'' = Inr (Some (JArr (map JStr ds)))"
    by (auto simp: publish_body_def)
  have empty_omitted: "publish_body (Some []) flag = publish_body None flag"
    by (simp add: publish_body_def)
  have unresolved: "resolveSiteId e siteId = Inl err \<longrightarrow>
                    snd (publishSite e siteId customDomains flag log) = log"
    by (simp add: publishSite_unresolved)
  show ?thesis
    using publishSite_log [of e siteId site k customDomains flag log]
      publishSite_no_key [of e err siteId customDomains flag log]
      unresolved sent flag_key default_false keys domains empty_omitted
    by blast
qed

theorem publishSite_body_keys_witness:
  "snd (publishSite (scripted_env (Some ''test-api-key'') (Some ''test-site-id'')
                       [Inr (json_response (JObj []))])
          (Some ''site-1'') (Some [''dom-1'']) None [])
   = [\<lparr>req_url = ''https://api.webflow.com/v2/sites/site-1/publish'', req_query = [],
       req_method = POST,
       req_headers = [(''Authorization'', ''Bearer test-api-key''),
                      (''Content-Type'', ''application/json'')],
       req_body = Some (JObj [(''publishToWebflowSubdomain'', JBool False),
                              (''customDomains'', JArr [JStr ''dom-1''])])\<rparr>]
   \<and> snd (publishSite (scripted_env (Some ''test-api-key'') None []) None (Some [''dom-1'']) None []) = []
   \<and> snd (publishSite (scripted_env None None []) (Some ''site-1'') (Some [''dom-1'']) None []) = []
   \<and> get_prop (publish_body (Some [''dom-1'']) None) ''customDomains''
       = Inr (Some (JArr [JStr ''dom-1'']))"
  using publishSite_body_keys
          [where e = "scripted_env (Some ''test-api-key'') (Some ''test-site-id'')
                        [Inr (json_response (JObj []))]"
             and k = "''test-api-key''" and siteId = "Some ''site-1''" and site = "''site-1''"
             and customDomains = "Some [''dom-1'']" and flag = None and log = "[]"
             and ds = "[''dom-1'']"]
        publishSite_body_keys
          [where e = "scripted_env (Some ''test-api-key'') None []"
             and err = "ErrorObj site_id_required" and siteId = None
             and customDomains = "Some [''dom-1'']" and flag = None and log = "[]"]
        publishSite_body_keys
          [where e = "scripted_env None None []"
             and err = "ErrorObj api_key_required" and siteId = "Some ''site-1''"
             and customDomains = "Some [''dom-1'']" and flag = None and log = "[]"]
  by (simp add: getApiKey_def resolveSiteId_def getDefaultSiteId_def scripted_env_def
      api_request_def publish_body_def BASE_URL_def)

lemma listPages_unresolved:
  "resolveSiteId e siteId = Inl err \<Longrightarrow>
   listPages e siteId limit offset log
   = (\<lparr>lp_pages = [], lp_count = 0, lp_pagination = None,
       lp_error = Some (error_message err ''Failed to list pages'')\<rparr>, log)"
  by (simp add: listPages_def listPages_try_def try_catch_def bindIO_pureIO_Inl)

lemma listForms_unresolved:
  "resolveSiteId e siteId = Inl err \<Longrightarrow>
   listForms e siteId limit offset log
   = (\<lparr>lf_forms = [], lf_count = 0, lf_pagination = None,
       lf_error = Some (error_message err ''Failed to list forms'')\<rparr>, log)"
  by (simp add: listForms_def listForms_try_def try_catch_def bindIO_pureIO_Inl)

lemma listFormSubmissions_unresolved:
  "resolveSiteId e siteId = Inl err \<Longrightarrow>
   listFormSubmissions e siteId elementId limit offset log
   = (\<lparr>lfs_formSubmissions = [], lfs_count = 0, lfs_pagination = None,
       lfs_error = Some (error_message err ''Failed to list form submissions'')\<rparr>, log)"
  by (simp add: listFormSubmissions_def listFormSubmissions_try_def try_catch_def
      bindIO_pureIO_Inl)

lemma listCustomCode_unresolved:
  "resolveSiteId e siteId = Inl err \<Longrightarrow>
   listCustomCode e siteId limit offset log
   = (\<lparr>lcc_blocks = [], lcc_count = 0, lcc_pagination = None,
       lcc_error = Some (error_message err ''Failed to list custom code'')\<rparr>, log)"
  by (simp add: listCustomCode_def listCustomCode_try_def try_catch_def bindIO_pureIO_Inl)

lemma addCustomCode_unresolved:
  "\<not> (target = Page \<and> no_page_id pageId) \<Longrightarrow> length sourceCode \<le> 2000 \<Longrightarrow>
   resolveSiteId e siteId = Inl err \<Longrightarrow>
   addCustomCode e siteId target pageId sourceCode displayName version location log
   = (add_failed (error_message err ''Failed to add custom code''), log)"
  by (auto simp: addCustomCode_def addCustomCode_try_def try_catch_def bindIO_pureIO_Inl)

lemma listPages_log:
  "resolveSiteId e siteId = Inr site \<Longrightarrow> getApiKey e = Inr k \<Longrightarrow>
   snd (listPages e siteId limit offset log)
   = log @ [api_request k (''/sites/'' @ site @ ''/pages'')
              \<lparr>opt_method = None, opt_body = None,
               opt_params = Some [(''limit'', map_option PNum limit),
                                  (''offset'', map_option PNum offset)]\<rparr>]"
  by (simp add: listPages_def listPages_try_def snd_try_catch bindIO_pureIO_Inr
      snd_bindIO_pureIO callApi_log)

lemma listForms_log:
  "resolveSiteId e siteId = Inr site \<Longrightarrow> getApiKey e = Inr k \<Longrightarrow>
   snd (listForms e siteId limit offset log)
   = log @ [api_request k (''/sites/'' @ site @ ''/forms'')
              \<lparr>opt_method = None, opt_body = None,
               opt_params = Some [(''limit'', map_option PNum limit),
                                  (''offset'', map_option PNum offset)]\<rparr>]"
  by (simp add: listForms_def listForms_try_def snd_try_catch bindIO_pureIO_Inr
      snd_bindIO_pureIO callApi_log)

lemma listFormSubmissions_log:
  "resolveSiteId e siteId = Inr site \<Longrightarrow> getApiKey e = Inr k \<Longrightarrow>
   snd (listFormSubmissions e siteId elementId limit offset log)
   = log @ [api_request k (''/sites/'' @ site @ ''/form_submissions'')
              \<lparr>opt_method = None, opt_body = None,
               opt_params = Some [(''elementId'', map_option PStr elementId),
                                  (''limit'', map_option PNum limit),
                                  (''offset'', map_option PNum offset)]\<rparr>]"
  by (simp add: listFormSubmissions_def listFormSubmissions_try_def snd_try_catch
      bindIO_pureIO_Inr snd_bindIO_pureIO callApi_log)

lemma listCustomCode_log:
  "resolveSiteId e siteId = Inr site \<Longrightarrow> getApiKey e = Inr k \<Longrightarrow>
   snd (listCustomCode e siteId limit offset log)
   = log @ [api_request k (''/sites/'' @ site @ ''/custom_code/blocks'')
              \<lparr>opt_method = None, opt_body = None,
               opt_params = Some [(''limit'', map_option PNum limit),
                                  (''offset'', map_option PNum offset)]\<rparr>]"
  by (simp add: listCustomCode_def listCustomCode_try_def snd_try_catch bindIO_pureIO_Inr
      snd_bindIO_pureIO callApi_log)

lemma callApi_log_prefix:
  "prefix log (snd (callApi e path opts log))"
  by (auto simp: callApi_def Let_def split: sum.splits)

lemma addCustomCode_first_request:
  assumes "\<not> (target = Page \<and> no_page_id pageId)" "length sourceCode \<le> 2000"
    and "resolveSiteId e siteId = Inr site" "getApiKey e = Inr k"
  shows "prefix (log @ [register_request k site sourceCode version displayName])
           (snd (addCustomCode e siteId target pageId sourceCode displayName version location log))"
proof -
  obtain r where step1: "register_script e site sourceCode version displayName log
      = (r, log @ [register_request k site sourceCode version displayName])"
    using callApi_log [OF assms(4), of "''/sites/'' @ site @ ''/registered_scripts/inline''" _ log]
    by (metis register_script_def register_request_def prod.collapse)
  show ?thesis
  proof (cases r)
    case (Inl err)
    then show ?thesis
      using step1
      by (simp add: addCustomCode_def snd_try_catch addCustomCode_try_steps [OF assms(1-3)]
          bindIO_def)
  next
    case (Inr registered)
    show ?thesis
    proof (cases "string_or_empty registered ''id''")
      case (Inl err)
      then show ?thesis
        using step1 Inr
        by (simp add: addCustomCode_def snd_try_catch addCustomCode_try_steps [OF assms(1-3)]
            bindIO_def pureIO_def)
    next
      case (Inr scriptId)
      have "prefix (log @ [register_request k site sourceCode version displayName])
              (snd (apply_script e site target pageId scriptId location version
                      (log @ [register_request k site sourceCode version displayName])))"
        unfolding apply_script_def by (rule callApi_log_prefix)
      then show ?thesis
        using step1 \<open>r = Inr registered\<close> Inr
        by (cases "scriptId = []")
           (auto simp: addCustomCode_def snd_try_catch addCustomCode_try_steps [OF assms(1-3)]
              bindIO_def pureIO_def split: prod.splits sum.splits)
    qed
  qed
qed

lemma resolveSiteId_cases:
  "(siteId = Some s \<and> s \<noteq> [] \<longrightarrow> resolveSiteId e siteId = Inr s)
   \<and> ((siteId = None \<or> siteId = Some []) \<and> WEBFLOW_SITE_ID e = Some d \<and> d \<noteq> []
        \<longrightarrow> resolveSiteId e siteId = Inr d)
   \<and> ((siteId = None \<or> siteId = Some []) \<and> (WEBFLOW_SITE_ID e = None \<or> WEBFLOW_SITE_ID e = Some [])
        \<longrightarrow> resolveSiteId e siteId = Inl (ErrorObj site_id_required))"
  by (auto simp: resolveSiteId_def getDefaultSiteId_def Let_def split: option.splits)

lemma error_message_ErrorObj: "error_message (ErrorObj m) fallback = m"
  by (simp add: error_message_def)

text \<open>
  C9, as stated, at an explicit site identifier that is the empty string (the input shape
  admits every string): the identifier that was supplied is not used, the default is, and
  \<^verbatim>\<open>listPages\<close> requests the pages of the default site; with no default the resolution
  fails although an argument was supplied.
\<close>

theorem empty_site_identifier_counterexample:
  "resolveSiteId (scripted_env (Some ''test-api-key'') (Some ''test-site-id'') []) (Some [])
     = Inr ''test-site-id''
   \<and> map req_url (snd (listPages (scripted_env (Some ''test-api-key'') (Some ''test-site-id'') [])
                          (Some []) None None []))
     = [''https://api.webflow.com/v2/sites/test-site-id/pages'']
   \<and> resolveSiteId (scripted_env (Some ''test-api-key'') None []) (Some [])
     = Inl (ErrorObj site_id_required)"
  by (simp add: resolveSiteId_def getDefaultSiteId_def scripted_env_def listPages_def
      listPages_try_def snd_try_catch bindIO_pureIO_Inr snd_bindIO_pureIO callApi_def
      getApiKey_def api_request_def BASE_URL_def Let_def split: sum.splits)

text \<open>
  C9, amended. Site-identifier resolution, shared by every site-scoped tool
  (\<^verbatim>\<open>publishSite\<close>, \<^verbatim>\<open>listPages\<close>, \<^verbatim>\<open>listForms\<close>, \<^verbatim>\<open>listFormSubmissions\<close>,
  \<^verbatim>\<open>listCustomCode\<close>, and \<^verbatim>\<open>addCustomCode\<close> once its preconditions pass): an explicit site
  identifier that is not empty is used; otherwise (absent, or empty) the process-wide
  default is used when it is set and not empty; otherwise the resolution fails with the
  configuration error. When it fails, each tool returns its failure shape with that
  error's message and issues no request. When it succeeds with \<open>site\<close> and the API key
  is set, the request each tool issues (the first one, for \<^verbatim>\<open>addCustomCode\<close>) is addressed
  to \<^verbatim>\<open>/sites/<site>/...\<close>.
\<close>

theorem site_identifier_resolution:
  "(siteId = Some s \<and> s \<noteq> [] \<longrightarrow> resolveSiteId e siteId = Inr s)
   \<and> ((siteId = None \<or> siteId = Some []) \<and> WEBFLOW_SITE_ID e = Some d \<and> d \<noteq> []
        \<longrightarrow> resolveSiteId e siteId = Inr d)
   \<and> ((siteId = None \<or> siteId = Some []) \<and> (WEBFLOW_SITE_ID e = None \<or> WEBFLOW_SITE_ID e = Some [])
        \<longrightarrow> resolveSiteId e siteId = Inl (ErrorObj site_id_required))
   \<and> (resolveSiteId e siteId = Inl (ErrorObj site_id_required) \<longrightarrow>
        publishSite e siteId customDomains flag log
          = (\<lparr>ps_success = False, ps_publishedDomains = None,
              ps_error = Some site_id_required\<rparr>, log)
        \<and> listPages e siteId limit offset log
          = (\<lparr>lp_pages = [], lp_count = 0, lp_pagination = None,
              lp_error = Some site_id_required\<rparr>, log)
        \<and> listForms e siteId limit offset log
          = (\<lparr>lf_forms = [], lf_count = 0, lf_pagination = None,
              lf_error = Some site_id_required\<rparr>, log)
        \<and> listFormSubmissions e siteId elementId limit offset log
          = (\<lparr>lfs_formSubmissions = [], lfs_count = 0, lfs_pagination = None,
              lfs_error = Some site_id_required\<rparr>, log)
        \<and> listCustomCode e siteId limit offset log
          = (\<lparr>lcc_blocks = [], lcc_count = 0, lcc_pagination = None,
              lcc_error = Some site_id_required\<rparr>, log)
        \<and> (\<not> (target = Page \<and> (pageId = None \<or> pageId = Some [])) \<and> length sourceCode \<le> 2000
             \<longrightarrow> addCustomCode e siteId target pageId sourceCode displayName version location log
                  = (add_failed site_id_required, log)))
   \<and> (resolveSiteId e siteId = Inr site \<and> getApiKey e = Inr k \<longrightarrow>
        snd (publishSite e siteId customDomains flag log)
          = log @ [api_request k (''/sites/'' @ site @ ''/publish'')
                     \<lparr>opt_method = Some POST,
                      opt_body = Some (publish_body customDomains flag), opt_params = None\<rparr>]
        \<and> snd (listPages e siteId limit offset log)
          = log @ [api_request k (''/sites/'' @ site @ ''/pages'')
                     \<lparr>opt_method = None, opt_body = None,
                      opt_params = Some [(''limit'', map_option PNum limit),
                                         (''offset'', map_option PNum offset)]\<rparr>]
        \<and> snd (listForms e siteId limit offset log)
          = log @ [api_request k (''/sites/'' @ site @ ''/forms'')
                     \<lparr>opt_method = None, opt_body = None,
                      opt_params = Some [(''limit'', map_option PNum limit),
                                         (''offset'', map_option PNum offset)]\<rparr>]
        \<and> snd (listFormSubmissions e siteId elementId limit offset log)
          = log @ [api_request k (''/sites/'' @ site @ ''/form_submissions'')
                     \<lparr>opt_method = None, opt_body = None,
                      opt_params = Some [(''elementId'', map_option PStr elementId),
                                         (''limit'', map_option PNum limit),
                                         (''offset'', map_option PNum offset)]\<rparr>]
        \<and> snd (listCustomCode e siteId limit offset log)
          = log @ [api_request k (''/sites/'' @ site @ ''/custom_code/blocks'')
                     \<lparr>opt_method = None, opt_body = None,
                      opt_params = Some [(''limit'', map_option PNum limit),
                                         (''offset'', map_option PNum offset)]\<rparr>]
        \<and> (\<not> (target = Page \<and> (pageId = None \<or> pageId = Some [])) \<and> length sourceCode \<le> 2000
             \<longrightarrow> prefix (log @ [register_request k site sourceCode version displayName])
                   (snd (addCustomCode e siteId target pageId sourceCode displayName version
                           location log))))"
proof -
  have pre: "\<not> (target = Page \<and> (pageId = None \<or> pageId = Some []))
             \<Longrightarrow> \<not> (target = Page \<and> no_page_id pageId)"
    by (auto simp: no_page_id_def split: option.splits)
  have unresolved:
    "resolveSiteId e siteId = Inl (ErrorObj site_id_required) \<longrightarrow>
        publishSite e siteId customDomains flag log
          = (\<lparr>ps_success = False, ps_publishedDomains = None,
              ps_error = Some site_id_required\<rparr>, log)
        \<and> listPages e siteId limit offset log
          = (\<lparr>lp_pages = [], lp_count = 0, lp_pagination = None,
              lp_error = Some site_id_required\<rparr>, log)
        \<and> listForms e siteId limit offset log
          = (\<lparr>lf_forms = [], lf_count = 0, lf_pagination = None,
              lf_error = Some site_id_required\<rparr>, log)
        \<and> listFormSubmissions e siteId elementId limit offset log
          = (\<lparr>lfs_formSubmissions = [], lfs_count = 0, lfs_pagination = None,
              lfs_error = Some site_id_required\<rparr>, log)
        \<and> listCustomCode e siteId limit offset log
          = (\<lparr>lcc_blocks = [], lcc_count = 0, lcc_pagination = None,
              lcc_error = Some site_id_required\<rparr>, log)
        \<and> (\<not> (target = Page \<and> (pageId = None \<or> pageId = Some [])) \<and> length sourceCode \<le> 2000
             \<longrightarrow> addCustomCode e siteId target pageId sourceCode displayName version location log
                  = (add_failed site_id_required, log))"
    using pre
    by (simp add: publishSite_unresolved listPages_unresolved listForms_unresolved
        listFormSubmissions_unresolved listCustomCode_unresolved addCustomCode_unresolved
        error_message_ErrorObj)
  have resolved:
    "resolveSiteId e siteId = Inr site \<and> getApiKey e = Inr k \<longrightarrow>
        snd (publishSite e siteId customDomains flag log)
          = log @ [api_request k (''/sites/'' @ site @ ''/publish'')
                     \<lparr>opt_method = Some POST,
                      opt_body = Some (publish_body customDomains flag), opt_params = None\<rparr>]
        \<and> snd (listPages e siteId limit offset log)
          = log @ [api_request k (''/sites/'' @ site @ ''/pages'')
                     \<lparr>opt_method = None, opt_body = None,
                      opt_params = Some [(''limit'', map_option PNum limit),
                                         (''offset'', map_option PNum offset)]\<rparr>]
        \<and> snd (listForms e siteId limit offset log)
          = log @ [api_request k (''/sites/'' @ site @ ''/forms'')
                     \<lparr>opt_method = None, opt_body = None,
                      opt_params = Some [(''limit'', map_option PNum limit),
                                         (''offset'', map_option PNum offset)]\<rparr>]
        \<and> snd (listFormSubmissions e siteId elementId limit offset log)
          = log @ [api_request k (''/sites/'' @ site @ ''/form_submissions'')
                     \<lparr>opt_method = None, opt_body = None,
                      opt_params = Some [(''elementId'', map_option PStr elementId),
                                         (''limit'', map_option PNum limit),
                                         (''offset'', map_option PNum offset)]\<rparr>]
        \<and> snd (listCustomCode e siteId limit offset log)
          = log @ [api_request k (''/sites/'' @ site @ ''/custom_code/blocks'')
                     \<lparr>opt_method = None, opt_body = None,
                      opt_params = Some [(''limit'', map_option PNum limit),
                                         (''offset'', map_option PNum offset)]\<rparr>]
        \<and> (\<not> (target = Page \<and> (pageId = None \<or> pageId = Some [])) \<and> length sourceCode \<le> 2000
             \<longrightarrow> prefix (log @ [register_request k site sourceCode version displayName])
                   (snd (addCustomCode e siteId target pageId sourceCode displayName version
                           location log)))"
    using pre
    by (simp add: publishSite_log listPages_log listForms_log listFormSubmissions_log
        listCustomCode_log addCustomCode_first_request)
  show ?thesis
    using resolveSiteId_cases [of siteId s e d] unresolved resolved
    by blast
qed

theorem site_identifier_resolution_witness:
  "resolveSiteId (scripted_env (Some ''test-api-key'') (Some ''test-site-id'') []) (Some ''site-1'')
     = Inr ''site-1''
   \<and> resolveSiteId (scripted_env (Some ''test-api-key'') (Some ''test-site-id'') []) None
     = Inr ''test-site-id''
   \<and> resolveSiteId (scripted_env (Some ''test-api-key'') None []) None
     = Inl (ErrorObj site_id_required)
   \<and> listPages (scripted_env (Some ''test-api-key'') None []) None None None []
     = (\<lparr>lp_pages = [], lp_count = 0, lp_pagination = None,
         lp_error = Some site_id_required\<rparr>, [])
   \<and> addCustomCode (scripted_env (Some ''test-api-key'') None []) None Site None
       ''console.log(1);'' ''Hello'' ''1.0.0'' Footer []
     = (add_failed site_id_required, [])
   \<and> snd (listPages (scripted_env (Some ''test-api-key'') (Some ''test-site-id'') [])
            (Some ''site-1'') None None [])
     = [api_request ''test-api-key'' ''/sites/site-1/pages''
          \<lparr>opt_method = None, opt_body = None,
           opt_params = Some [(''limit'', None), (''offset'', None)]\<rparr>]
   \<and> snd (listForms (scripted_env (Some ''test-api-key'') (Some ''test-site-id'') [])
            None None None [])
     = [api_request ''test-api-key'' ''/sites/test-site-id/forms''
          \<lparr>opt_method = None, opt_body = None,
           opt_params = Some [(''limit'', None), (''offset'', None)]\<rparr>]"
  using site_identifier_resolution
          [where e = "scripted_env (Some ''test-api-key'') (Some ''test-site-id'') []"
             and siteId = "Some ''site-1''" and s = "''site-1''" and site = "''site-1''"
             and k = "''test-api-key''" and limit = None and offset = None and log = "[]"
             and target = Site and pageId = None and sourceCode = "''console.log(1);''"]
        site_identifier_resolution
          [where e = "scripted_env (Some ''test-api-key'') (Some ''test-site-id'') []"
             and siteId = None and d = "''test-site-id''" and site = "''test-site-id''"
             and k = "''test-api-key''" and limit = None and offset = None and log = "[]"
             and target = Site and pageId = None and sourceCode = "''console.log(1);''"]
        site_identifier_resolution
          [where e = "scripted_env (Some ''test-api-key'') None []"
             and siteId = None and limit = None and offset = None and log = "[]"
             and target = Site and pageId = None and sourceCode = "''console.log(1);''"
             and displayName = "''Hello''" and version = "''1.0.0''" and location = Footer]
  by (simp add: resolveSiteId_def getDefaultSiteId_def getApiKey_def scripted_env_def)

section \<open>Success and failure of every tool\<close>

lemma names_failure_Inr: "names_failure (Inr x)"
  by (simp add: names_failure_def)

lemma names_failure_bindE:
  "names_failure m \<Longrightarrow> (\<And>x. names_failure (f x)) \<Longrightarrow> names_failure (bindE m f)"
  by (cases m) (simp_all add: bindE_def names_failure_def)

lemma names_failure_mapE:
  "(\<And>x. names_failure (f x)) \<Longrightarrow> names_failure (mapE f xs)"
  by (induction xs) (auto intro!: names_failure_bindE names_failure_Inr)

lemma names_failure_get_prop: "names_failure (get_prop v k)"
  by (cases v) (simp_all add: names_failure_def cannot_read_null_def)

lemma names_failure_js_String: "names_failure (js_String v)"
  by (simp add: names_failure_def js_String_def cannot_convert_def split: option.splits)

lemma names_failure_js_Number: "names_failure (js_Number v)"
  by (simp add: names_failure_def js_Number_def cannot_convert_def)

lemmas names_failure_basic =
  names_failure_Inr names_failure_bindE names_failure_mapE names_failure_get_prop
  names_failure_js_String names_failure_js_Number

lemma names_failure_string_or_empty: "names_failure (string_or_empty obj k)"
  unfolding string_or_empty_def by (intro names_failure_basic)

lemma names_failure_truthy_string: "names_failure (truthy_string obj k)"
  unfolding truthy_string_def by (auto intro!: names_failure_basic)

lemma names_failure_boolean_or_undefined: "names_failure (boolean_or_undefined obj k)"
  unfolding boolean_or_undefined_def by (intro names_failure_basic)

lemma names_failure_number_or_zero: "names_failure (number_or_zero obj k)"
  unfolding number_or_zero_def by (intro names_failure_basic)

lemma names_failure_getStringField: "names_failure (getStringField obj s c)"
  unfolding getStringField_def by (auto intro!: names_failure_basic)

lemma names_failure_parseTitleDescription: "names_failure (parseTitleDescription raw)"
  unfolding parseTitleDescription_def
  by (auto intro!: names_failure_basic names_failure_truthy_string split: option.splits)

lemma names_failure_parseFormFields: "names_failure (parseFormFields rawFields)"
  unfolding parseFormFields_def Let_def
  by (auto intro!: names_failure_basic names_failure_truthy_string split: option.splits)

lemma names_failure_pagination_of: "names_failure (pagination_of p)"
  unfolding pagination_of_def
  by (auto intro!: names_failure_basic names_failure_number_or_zero split: option.splits)

lemma names_failure_js_map:
  "(\<And>x. names_failure (f x)) \<Longrightarrow> names_failure (js_map what v f)"
proof (cases v)
  case (JArr xs)
  assume "\<And>x. names_failure (f x)"
  then have "names_failure (mapE f xs)"
    by (rule names_failure_mapE)
  then show ?thesis
    using JArr by (simp add: js_map_def)
qed (simp_all add: js_map_def names_failure_def cannot_read_null_def not_a_function_def)

lemma names_failure_optional_map:
  "(\<And>x. names_failure (f x)) \<Longrightarrow> names_failure (optional_map what v f)"
  unfolding optional_map_def
  by (auto intro!: names_failure_basic names_failure_js_map split: option.splits json.splits)

lemmas names_failure_fields =
  names_failure_basic names_failure_string_or_empty names_failure_truthy_string
  names_failure_boolean_or_undefined names_failure_number_or_zero names_failure_getStringField
  names_failure_parseTitleDescription names_failure_parseFormFields names_failure_pagination_of
  names_failure_js_map names_failure_optional_map

lemma names_failure_domain_of: "names_failure (domain_of d)"
  unfolding domain_of_def by (intro names_failure_fields)

lemma names_failure_site_of: "names_failure (site_of raw)"
  unfolding site_of_def by (intro names_failure_fields names_failure_domain_of)

lemma names_failure_page_of: "names_failure (page_of page)"
  unfolding page_of_def by (intro names_failure_fields)

lemma names_failure_form_of: "names_failure (form_of form)"
  unfolding form_of_def by (intro names_failure_fields)

lemma names_failure_submission_of: "names_failure (submission_of submission)"
  unfolding submission_of_def by (intro names_failure_fields)

lemma names_failure_script_of: "names_failure (script_of script)"
  unfolding script_of_def by (intro names_failure_fields)

lemma names_failure_block_of: "names_failure (block_of block)"
  unfolding block_of_def by (intro names_failure_fields names_failure_script_of)

lemma names_failure_resolveSiteId: "names_failure (resolveSiteId e siteId)"
  by (simp add: names_failure_def resolveSiteId_def site_id_required_def Let_def)

lemma names_failure_callApi:
  assumes "transport_messages_nonempty e"
  shows "names_failure (fst (callApi e path opts log))"
proof (cases "getApiKey e")
  case (Inl err)
  then have "err = ErrorObj api_key_required"
    by (auto simp: getApiKey_def split: option.splits if_splits)
  then show ?thesis
    using Inl by (simp add: callApi_no_key names_failure_def api_key_required_def)
next
  case (Inr k)
  have "case fetch e log (api_request k path opts) of
          Inl err \<Rightarrow> err \<noteq> ErrorObj []
        | Inr resp \<Rightarrow> if resp_ok resp then resp_json resp \<noteq> Inl (ErrorObj [])
                      else resp_text resp \<noteq> Inl (ErrorObj [])"
    using assms unfolding transport_messages_nonempty_def by blast
  then show ?thesis
    using Inr by (auto simp: callApi_def Let_def names_failure_def split: sum.splits)
qed

lemma names_failure_pureIO: "names_failure r \<Longrightarrow> names_failure (fst (pureIO r log))"
  by (simp add: pureIO_def)

lemma names_failure_bindIO:
  "(\<And>log. names_failure (fst (m log))) \<Longrightarrow> (\<And>x log. names_failure (fst (f x log)))
   \<Longrightarrow> names_failure (fst (bindIO m f log))"
proof -
  assume m: "\<And>log. names_failure (fst (m log))"
    and f: "\<And>x log. names_failure (fst (f x log))"
  obtain r log' where run: "m log = (r, log')"
    by (cases "m log")
  show ?thesis
  proof (cases r)
    case (Inl err)
    then show ?thesis
      using m [of log] run by (simp add: bindIO_def names_failure_def)
  next
    case (Inr x)
    then show ?thesis
      using f [of x log'] run by (simp add: bindIO_def)
  qed
qed

lemma error_message_nonempty:
  "err \<noteq> ErrorObj [] \<Longrightarrow> fallback \<noteq> [] \<Longrightarrow> error_message err fallback \<noteq> []"
  by (cases err) (simp_all add: error_message_def)

lemma names_failure_listSites_try:
  "transport_messages_nonempty e \<Longrightarrow> names_failure (fst (listSites_try e log))"
  unfolding listSites_try_def
  by (intro names_failure_bindIO names_failure_pureIO names_failure_callApi
      names_failure_fields names_failure_site_of)

lemma names_failure_publishSite_try:
  "transport_messages_nonempty e \<Longrightarrow>
   names_failure (fst (publishSite_try e siteId customDomains flag log))"
  unfolding publishSite_try_def
  by (intro names_failure_bindIO names_failure_pureIO names_failure_callApi
      names_failure_resolveSiteId names_failure_fields names_failure_domain_of)

lemma names_failure_listPages_try:
  "transport_messages_nonempty e \<Longrightarrow>
   names_failure (fst (listPages_try e siteId limit offset log))"
  unfolding listPages_try_def
  by (intro names_failure_bindIO names_failure_pureIO names_failure_callApi
      names_failure_resolveSiteId names_failure_fields names_failure_page_of)

lemma names_failure_updatePage_try:
  "transport_messages_nonempty e \<Longrightarrow>
   names_failure (fst (updatePage_try e pageId title slug seo openGraph log))"
  unfolding updatePage_try_def
  by (intro names_failure_bindIO names_failure_pureIO names_failure_callApi
      names_failure_fields names_failure_page_of)

lemma names_failure_listForms_try:
  "transport_messages_nonempty e \<Longrightarrow>
   names_failure (fst (listForms_try e siteId limit offset log))"
  unfolding listForms_try_def
  by (intro names_failure_bindIO names_failure_pureIO names_failure_callApi
      names_failure_resolveSiteId names_failure_fields names_failure_form_of)

lemma names_failure_listFormSubmissions_try:
  "transport_messages_nonempty e \<Longrightarrow>
   names_failure (fst (listFormSubmissions_try e siteId elementId limit offset log))"
  unfolding listFormSubmissions_try_def
  by (intro names_failure_bindIO names_failure_pureIO names_failure_callApi
      names_failure_resolveSiteId names_failure_fields names_failure_submission_of)

lemma names_failure_listCustomCode_try:
  "transport_messages_nonempty e \<Longrightarrow>
   names_failure (fst (listCustomCode_try e siteId limit offset log))"
  unfolding listCustomCode_try_def
  by (intro names_failure_bindIO names_failure_pureIO names_failure_callApi
      names_failure_resolveSiteId names_failure_fields names_failure_block_of)

lemma names_failure_addCustomCode_try:
  "transport_messages_nonempty e \<Longrightarrow>
   names_failure (fst (addCustomCode_try e siteId target pageId sourceCode displayName version
                         location log))"
  unfolding addCustomCode_try_def
  by (auto intro!: names_failure_bindIO names_failure_pureIO names_failure_callApi
      names_failure_resolveSiteId names_failure_fields)

lemma publishSite_try_Inr:
  "publishSite_try e siteId customDomains flag log = (Inr r, log') \<Longrightarrow> ps_success r \<and> ps_error r = None"
  by (auto simp: publishSite_try_def bindIO_def pureIO_def bindE_def split: prod.splits sum.splits)

lemma updatePage_try_Inr:
  "updatePage_try e pid title slug seo openGraph log = (Inr r, log') \<Longrightarrow> up_success r \<and> up_error r = None"
  by (auto simp: updatePage_try_def bindIO_def pureIO_def bindE_def split: prod.splits sum.splits)

lemma add_failed_messages:
  "page_id_required \<noteq> [] \<and> script_too_long n \<noteq> [] \<and> no_script_id \<noteq> []"
  by (simp add: page_id_required_def script_too_long_def no_script_id_def)

lemma addCustomCode_try_Inr:
  "addCustomCode_try e siteId target pageId sourceCode displayName version location log = (Inr r, log')
   \<Longrightarrow> (acc_success r \<and> acc_error r = None)
       \<or> (\<not> acc_success r \<and> (\<exists>msg. acc_error r = Some msg \<and> msg \<noteq> []))"
  using add_failed_messages [of "length sourceCode"]
  by (auto simp: addCustomCode_try_def bindIO_def pureIO_def add_failed_def
      split: prod.splits sum.splits if_splits)

lemma listSites_states:
  "(let r = fst (listSites e log) in (ls_error r = None) \<noteq> (ls_sites r = [] \<and> ls_count r = 0 \<and> ls_error r \<noteq> None))"
proof (cases "listSites_try e log")
  case (Pair res log')
  then show ?thesis
    by (cases res) (auto simp: listSites_def try_catch_def Let_def add_failed_def dest: listSites_try_Inr)
qed

lemma listSites_message:
  assumes "transport_messages_nonempty e"
  shows "ls_error (fst (listSites e log)) \<noteq> Some []"
proof (cases "listSites_try e log")
  case (Pair res log')
  show ?thesis
  proof (cases res)
    case (Inl err)
    have "names_failure (fst (listSites_try e log))"
      using assms by (rule names_failure_listSites_try)
    then have "err \<noteq> ErrorObj []"
      using Pair Inl by (simp add: names_failure_def)
    then show ?thesis
      using Pair Inl
      by (simp add: listSites_def try_catch_def add_failed_def error_message_nonempty)
  next
    case (Inr x)
    then show ?thesis
      using Pair listSites_try_Inr [of e log x log']
      by (auto simp: listSites_def try_catch_def)
  qed
qed

lemma publishSite_states:
  "(let r = fst (publishSite e siteId customDomains flag log) in (ps_success r \<and> ps_error r = None) \<noteq> (\<not> ps_success r \<and> ps_error r \<noteq> None))"
proof (cases "publishSite_try e siteId customDomains flag log")
  case (Pair res log')
  then show ?thesis
    by (cases res) (auto simp: publishSite_def try_catch_def Let_def add_failed_def dest: publishSite_try_Inr)
qed

lemma publishSite_message:
  assumes "transport_messages_nonempty e"
  shows "ps_error (fst (publishSite e siteId customDomains flag log)) \<noteq> Some []"
proof (cases "publishSite_try e siteId customDomains flag log")
  case (Pair res log')
  show ?thesis
  proof (cases res)
    case (Inl err)
    have "names_failure (fst (publishSite_try e siteId customDomains flag log))"
      using assms by (rule names_failure_publishSite_try)
    then have "err \<noteq> ErrorObj []"
      using Pair Inl by (simp add: names_failure_def)
    then show ?thesis
      using Pair Inl
      by (simp add: publishSite_def try_catch_def add_failed_def error_message_nonempty)
  next
    case (Inr x)
    then show ?thesis
      using Pair publishSite_try_Inr [of e siteId customDomains flag log x log']
      by (auto simp: publishSite_def try_catch_def)
  qed
qed

lemma listPages_states:
  "(let r = fst (listPages e siteId limit offset log) in (lp_error r = None) \<noteq> (lp_pages r = [] \<and> lp_count r = 0 \<and> lp_error r \<noteq> None))"
proof (cases "listPages_try e siteId limit offset log")
  case (Pair res log')
  then show ?thesis
    by (cases res) (auto simp: listPages_def try_catch_def Let_def add_failed_def dest: listPages_try_Inr)
qed

lemma listPages_message:
  assumes "transport_messages_nonempty e"
  shows "lp_error (fst (listPages e siteId limit offset log)) \<noteq> Some []"
proof (cases "listPages_try e siteId limit offset log")
  case (Pair res log')
  show ?thesis
  proof (cases res)
    case (Inl err)
    have "names_failure (fst (listPages_try e siteId limit offset log))"
      using assms by (rule names_failure_listPages_try)
    then have "err \<noteq> ErrorObj []"
      using Pair Inl by (simp add: names_failure_def)
    then show ?thesis
      using Pair Inl
      by (simp add: listPages_def try_catch_def add_failed_def error_message_nonempty)
  next
    case (Inr x)
    then show ?thesis
      using Pair listPages_try_Inr [of e siteId limit offset log x log']
      by (auto simp: listPages_def try_catch_def)
  qed
qed

lemma updatePage_states:
  "(let r = fst (updatePage e pid title slug seo openGraph log) in (up_success r \<and> up_error r = None) \<noteq> (\<not> up_success r \<and> up_error r \<noteq> None))"
proof (cases "updatePage_try e pid title slug seo openGraph log")
  case (Pair res log')
  then show ?thesis
    by (cases res) (auto simp: updatePage_def try_catch_def Let_def add_failed_def dest: updatePage_try_Inr)
qed

lemma updatePage_message:
  assumes "transport_messages_nonempty e"
  shows "up_error (fst (updatePage e pid title slug seo openGraph log)) \<noteq> Some []"
proof (cases "updatePage_try e pid title slug seo openGraph log")
  case (Pair res log')
  show ?thesis
  proof (cases res)
    case (Inl err)
    have "names_failure (fst (updatePage_try e pid title slug seo openGraph log))"
      using assms by (rule names_failure_updatePage_try)
    then have "err \<noteq> ErrorObj []"
      using Pair Inl by (simp add: names_failure_def)
    then show ?thesis
      using Pair Inl
      by (simp add: updatePage_def try_catch_def add_failed_def error_message_nonempty)
  next
    case (Inr x)
    then show ?thesis
      using Pair updatePage_try_Inr [of e pid title slug seo openGraph log x log']
      by (auto simp: updatePage_def try_catch_def)
  qed
qed

lemma listForms_states:
  "(let r = fst (listForms e siteId limit offset log) in (lf_error r = None) \<noteq> (lf_forms r = [] \<and> lf_count r = 0 \<and> lf_error r \<noteq> None))"
proof (cases "listForms_try e siteId limit offset log")
  case (Pair res log')
  then show ?thesis
    by (cases res) (auto simp: listForms_def try_catch_def Let_def add_failed_def dest: listForms_try_Inr)
qed

lemma listForms_message:
  assumes "transport_messages_nonempty e"
  shows "lf_error (fst (listForms e siteId limit offset log)) \<noteq> Some []"
proof (cases "listForms_try e siteId limit offset log")
  case (Pair res log')
  show ?thesis
  proof (cases res)
    case (Inl err)
    have "names_failure (fst (listForms_try e siteId limit offset log))"
      using assms by (rule names_failure_listForms_try)
    then have "err \<noteq> ErrorObj []"
      using Pair Inl by (simp add: names_failure_def)
    then show ?thesis
      using Pair Inl
      by (simp add: listForms_def try_catch_def add_failed_def error_message_nonempty)
  next
    case (Inr x)
    then show ?thesis
      using Pair listForms_try_Inr [of e siteId limit offset log x log']
      by (auto simp: listForms_def try_catch_def)
  qed
qed

lemma listFormSubmissions_states:
  "(let r = fst (listFormSubmissions e siteId elementId limit offset log) in (lfs_error r = None) \<noteq> (lfs_formSubmissions r = [] \<and> lfs_count r = 0 \<and> lfs_error r \<noteq> None))"
proof (cases "listFormSubmissions_try e siteId elementId limit offset log")
  case (Pair res log')
  then show ?thesis
    by (cases res) (auto simp: listFormSubmissions_def try_catch_def Let_def add_failed_def dest: listFormSubmissions_try_Inr)
qed

lemma listFormSubmissions_message:
  assumes "transport_messages_nonempty e"
  shows "lfs_error (fst (listFormSubmissions e siteId elementId limit offset log)) \<noteq> Some []"
proof (cases "listFormSubmissions_try e siteId elementId limit offset log")
  case (Pair res log')
  show ?thesis
  proof (cases res)
    case (Inl err)
    have "names_failure (fst (listFormSubmissions_try e siteId elementId limit offset log))"
      using assms by (rule names_failure_listFormSubmissions_try)
    then have "err \<noteq> ErrorObj []"
      using Pair Inl by (simp add: names_failure_def)
    then show ?thesis
      using Pair Inl
      by (simp add: listFormSubmissions_def try_catch_def add_failed_def error_message_nonempty)
  next
    case (Inr x)
    then show ?thesis
      using Pair listFormSubmissions_try_Inr [of e siteId elementId limit offset log x log']
      by (auto simp: listFormSubmissions_def try_catch_def)
  qed
qed

lemma listCustomCode_states:
  "(let r = fst (listCustomCode e siteId limit offset log) in (lcc_error r = None) \<noteq> (lcc_blocks r = [] \<and> lcc_count r = 0 \<and> lcc_error r \<noteq> None))"
proof (cases "listCustomCode_try e siteId limit offset log")
  case (Pair res log')
  then show ?thesis
    by (cases res) (auto simp: listCustomCode_def try_catch_def Let_def add_failed_def dest: listCustomCode_try_Inr)
qed

lemma listCustomCode_message:
  assumes "transport_messages_nonempty e"
  shows "lcc_error (fst (listCustomCode e siteId limit offset log)) \<noteq> Some []"
proof (cases "listCustomCode_try e siteId limit offset log")
  case (Pair res log')
  show ?thesis
  proof (cases res)
    case (Inl err)
    have "names_failure (fst (listCustomCode_try e siteId limit offset log))"
      using assms by (rule names_failure_listCustomCode_try)
    then have "err \<noteq> ErrorObj []"
      using Pair Inl by (simp add: names_failure_def)
    then show ?thesis
      using Pair Inl
      by (simp add: listCustomCode_def try_catch_def add_failed_def error_message_nonempty)
  next
    case (Inr x)
    then show ?thesis
      using Pair listCustomCode_try_Inr [of e siteId limit offset log x log']
      by (auto simp: listCustomCode_def try_catch_def)
  qed
qed

lemma addCustomCode_states:
  "(let r = fst (addCustomCode e siteId target pageId sourceCode displayName version location log) in (acc_success r \<and> acc_error r = None) \<noteq> (\<not> acc_success r \<and> acc_error r \<noteq> None))"
proof (cases "addCustomCode_try e siteId target pageId sourceCode displayName version location log")
  case (Pair res log')
  then show ?thesis
    by (cases res) (auto simp: addCustomCode_def try_catch_def Let_def add_failed_def dest: addCustomCode_try_Inr)
qed

lemma addCustomCode_message:
  assumes "transport_messages_nonempty e"
  shows "acc_error (fst (addCustomCode e siteId target pageId sourceCode displayName version location log)) \<noteq> Some []"
proof (cases "addCustomCode_try e siteId target pageId sourceCode displayName version location log")
  case (Pair res log')
  show ?thesis
  proof (cases res)
    case (Inl err)
    have "names_failure (fst (addCustomCode_try e siteId target pageId sourceCode displayName version location log))"
      using assms by (rule names_failure_addCustomCode_try)
    then have "err \<noteq> ErrorObj []"
      using Pair Inl by (simp add: names_failure_def)
    then show ?thesis
      using Pair Inl
      by (simp add: addCustomCode_def try_catch_def add_failed_def error_message_nonempty)
  next
    case (Inr x)
    then show ?thesis
      using Pair addCustomCode_try_Inr [of e siteId target pageId sourceCode displayName version location log x log']
      by (auto simp: addCustomCode_def try_catch_def)
  qed
qed

lemma listSites_example:
  "listSites (scripted_env (Some ''test-api-key'') (Some ''test-site-id'')
      [Inr (json_response (JObj [(''sites'', JArr [JObj
         [(''id'', JStr ''site-1''), (''displayName'', JStr ''My Site''),
          (''shortName'', JStr ''my-site''), (''lastPublished'', JStr ''2025-01-01T00:00:00Z''),
          (''customDomains'', JArr [JObj [(''id'', JStr ''dom-1''), (''url'', JStr ''example.com'')]])]])]))]) []
   = (\<lparr>ls_sites =
        [\<lparr>site_id = ''site-1'', site_displayName = ''My Site'', site_shortName = ''my-site'',
          site_lastPublished = Some ''2025-01-01T00:00:00Z'', site_lastUpdated = None,
          site_previewUrl = None, site_timeZone = None,
          site_designerUrl = ''https://my-site.design.webflow.com'',
          site_settingsUrl = ''https://webflow.com/dashboard/sites/my-site/general'',
          site_customDomains = Some [\<lparr>dom_id = ''dom-1'', dom_url = ''example.com''\<rparr>]\<rparr>],
       ls_count = 1, ls_error = None\<rparr>,
      [\<lparr>req_url = ''https://api.webflow.com/v2/sites'', req_query = [], req_method = GET,
        req_headers = [(''Authorization'', ''Bearer test-api-key'')], req_body = None\<rparr>])"
  by (simp add: listSites_def listSites_try_def try_catch_def bindIO_def pureIO_def callApi_def
      getApiKey_def api_request_def no_options_def BASE_URL_def scripted_env_def json_response_def
      js_map_def site_of_def domain_of_def optional_map_def string_or_empty_def truthy_string_def
      getStringField_def bindE_def js_String_def Let_def)

text \<open>
  C5, as stated, in an environment whose \<^verbatim>\<open>fetch\<close> rejects with an \<^verbatim>\<open>Error\<close> that has the
  empty message (\<^verbatim>\<open>new Error("")\<close>): the tools pass the message on, and the result has an
  error field that is present and empty, with the failure shape. Neither of the two states
  of the claim holds: the error field is present, and it is not a non-empty string.
\<close>

theorem empty_error_message_counterexample:
  "fst (listSites (scripted_env (Some ''test-api-key'') (Some ''test-site-id'') [Inl (ErrorObj [])]) [])
     = \<lparr>ls_sites = [], ls_count = 0, ls_error = Some []\<rparr>
   \<and> fst (publishSite (scripted_env (Some ''test-api-key'') (Some ''test-site-id'') [Inl (ErrorObj [])])
            (Some ''site-1'') None (Some True) [])
     = \<lparr>ps_success = False, ps_publishedDomains = None, ps_error = Some []\<rparr>"
  by (simp add: listSites_def listSites_try_def publishSite_def publishSite_try_def try_catch_def
      bindIO_def pureIO_def callApi_def getApiKey_def resolveSiteId_def scripted_env_def
      error_message_def Let_def)

text \<open>
  C5, amended. For every tool and every execution outcome exactly one of two states
  holds in the result: the success indicator is true (for a list tool: the list is the
  one built from the response) with no error field; or the success indicator is false
  (for a list tool: the list is empty with count 0) with an error string present; never
  both, never neither. The error string is the message of the failure's cause, or the
  tool's default message; it is not empty whenever every \<^verbatim>\<open>Error\<close> that \<^verbatim>\<open>fetch\<close> or the
  reading of a response raises has a message that is not empty.
\<close>

theorem result_states_exclusive:
  "(let r = fst (listSites e log)
    in (ls_error r = None) \<noteq> (ls_sites r = [] \<and> ls_count r = 0 \<and> ls_error r \<noteq> None))
   \<and> (let r = fst (publishSite e siteId customDomains flag log)
    in (ps_success r \<and> ps_error r = None) \<noteq> (\<not> ps_success r \<and> ps_error r \<noteq> None))
   \<and> (let r = fst (listPages e siteId limit offset log)
    in (lp_error r = None) \<noteq> (lp_pages r = [] \<and> lp_count r = 0 \<and> lp_error r \<noteq> None))
   \<and> (let r = fst (updatePage e pid title slug seo openGraph log)
    in (up_success r \<and> up_error r = None) \<noteq> (\<not> up_success r \<and> up_error r \<noteq> None))
   \<and> (let r = fst (listForms e siteId limit offset log)
    in (lf_error r = None) \<noteq> (lf_forms r = [] \<and> lf_count r = 0 \<and> lf_error r \<noteq> None))
   \<and> (let r = fst (listFormSubmissions e siteId elementId limit offset log)
    in (lfs_error r = None)
       \<noteq> (lfs_formSubmissions r = [] \<and> lfs_count r = 0 \<and> lfs_error r \<noteq> None))
   \<and> (let r = fst (listCustomCode e siteId limit offset log)
    in (lcc_error r = None) \<noteq> (lcc_blocks r = [] \<and> lcc_count r = 0 \<and> lcc_error r \<noteq> None))
   \<and> (let r = fst (addCustomCode e siteId target pageId sourceCode displayName version location log)
    in (acc_success r \<and> acc_error r = None) \<noteq> (\<not> acc_success r \<and> acc_error r \<noteq> None))
   \<and> (transport_messages_nonempty e \<longrightarrow>
        ls_error (fst (listSites e log)) \<noteq> Some []
        \<and> ps_error (fst (publishSite e siteId customDomains flag log)) \<noteq> Some []
        \<and> lp_error (fst (listPages e siteId limit offset log)) \<noteq> Some []
        \<and> up_error (fst (updatePage e pid title slug seo openGraph log)) \<noteq> Some []
        \<and> lf_error (fst (listForms e siteId limit offset log)) \<noteq> Some []
        \<and> lfs_error (fst (listFormSubmissions e siteId elementId limit offset log)) \<noteq> Some []
        \<and> lcc_error (fst (listCustomCode e siteId limit offset log)) \<noteq> Some []
        \<and> acc_error (fst (addCustomCode e siteId target pageId sourceCode displayName version
                             location log)) \<noteq> Some [])"
  using listSites_states [of e log]
    publishSite_states [of e siteId customDomains flag log]
    listPages_states [of e siteId limit offset log]
    updatePage_states [of e pid title slug seo openGraph log]
    listForms_states [of e siteId limit offset log]
    listFormSubmissions_states [of e siteId elementId limit offset log]
    listCustomCode_states [of e siteId limit offset log]
    addCustomCode_states [of e siteId target pageId sourceCode displayName version location log]
    listSites_message [of e log]
    publishSite_message [of e siteId customDomains flag log]
    listPages_message [of e siteId limit offset log]
    updatePage_message [of e pid title slug seo openGraph log]
    listForms_message [of e siteId limit offset log]
    listFormSubmissions_message [of e siteId elementId limit offset log]
    listCustomCode_message [of e siteId limit offset log]
    addCustomCode_message [of e siteId target pageId sourceCode displayName version location log]
  by blast

theorem result_states_exclusive_witness:
  "ls_error (fst (listSites (scripted_env (Some ''test-api-key'') (Some ''test-site-id'')
                               [Inr (error_response 401 ''Unauthorized'')]) [])) \<noteq> Some []
   \<and> ps_error (fst (publishSite (scripted_env (Some ''test-api-key'') (Some ''test-site-id'')
                                   [Inr (error_response 401 ''Unauthorized'')])
                        (Some ''site-1'') None (Some True) [])) \<noteq> Some []
   \<and> acc_error (fst (addCustomCode (scripted_env (Some ''test-api-key'') (Some ''test-site-id'')
                                      [Inr (error_response 401 ''Unauthorized'')])
                        (Some ''site-1'') Site None ''console.log(1);'' ''Hello'' ''1.0.0'' Footer []))
       \<noteq> Some []
   \<and> fst (listSites (scripted_env (Some ''test-api-key'') (Some ''test-site-id'')
                       [Inr (error_response 401 ''Unauthorized'')]) [])
       = \<lparr>ls_sites = [], ls_count = 0,
          ls_error = Some ''Webflow API error 401: Unauthorized''\<rparr>"
  using result_states_exclusive
          [where e = "scripted_env (Some ''test-api-key'') (Some ''test-site-id'')
                        [Inr (error_response 401 ''Unauthorized'')]"
             and log = "[]" and siteId = "Some ''site-1''" and customDomains = None
             and flag = "Some True" and target = Site and pageId = None
             and sourceCode = "''console.log(1);''" and displayName = "''Hello''"
             and version = "''1.0.0''" and location = Footer]
  by (simp add: transport_messages_nonempty_def scripted_env_def error_response_def
      listSites_def listSites_try_def try_catch_def bindIO_def callApi_def getApiKey_def
      error_message_def show_nat.simps Let_def)

end
